theory Spec2Isabelle
  imports Main
begin

section \<open>Strings\<close>

text \<open>
  Strings are modelled as lists of 8-bit characters, the UTF-8 bytes of the text. The string
  functions of the platform that work on single characters of the ASCII range (\<^verbatim>\<open>join\<close>,
  \<^verbatim>\<open>includes\<close>, \<^verbatim>\<open>split\<close>, \<^verbatim>\<open>encodeURIComponent\<close>) are written out on that representation.
  The case mappings \<^verbatim>\<open>toLowerCase\<close> and \<^verbatim>\<open>toUpperCase\<close> follow the Unicode tables of the platform;
  they are parameters of the model (see \<open>env\<close> below). Their restrictions to ASCII, written
  out here, serve as example values only. A string with an unpaired surrogate, on which
  \<^verbatim>\<open>encodeURIComponent\<close> throws, is no text and has no such representation.
\<close>

text \<open>
  An optional string is truthy when it is neither \<^verbatim>\<open>undefined\<close> nor the empty string.
\<close>

definition truthy :: "string option \<Rightarrow> bool" where
  "truthy s = (case s of None \<Rightarrow> False | Some v \<Rightarrow> v \<noteq> [])"

definition upperLetters :: string where
  "upperLetters = ''ABCDEFGHIJKLMNOPQRSTUVWXYZ''"

definition lowerLetters :: string where
  "lowerLetters = ''abcdefghijklmnopqrstuvwxyz''"

definition lowerChar :: "char \<Rightarrow> char" where
  "lowerChar c = (case map_of (zip upperLetters lowerLetters) c of Some d \<Rightarrow> d | None \<Rightarrow> c)"

definition upperChar :: "char \<Rightarrow> char" where
  "upperChar c = (case map_of (zip lowerLetters upperLetters) c of Some d \<Rightarrow> d | None \<Rightarrow> c)"

definition asciiLowerCase :: "string \<Rightarrow> string" where
  "asciiLowerCase s = map lowerChar s"

definition asciiUpperCase :: "string \<Rightarrow> string" where
  "asciiUpperCase s = map upperChar s"

text \<open>
  \<^verbatim>\<open>Array.prototype.join\<close>, \<^verbatim>\<open>String.prototype.includes\<close> and \<^verbatim>\<open>split\<close> for a separator of one
  character.
\<close>

fun join :: "string \<Rightarrow> string list \<Rightarrow> string" where
  "join sep [] = []"
| "join sep [x] = x"
| "join sep (x # y # ys) = x @ sep @ join sep (y # ys)"

definition includes_str :: "string \<Rightarrow> char \<Rightarrow> bool" where
  "includes_str s c = (c \<in> set s)"

fun split :: "char \<Rightarrow> string \<Rightarrow> string list" where
  "split sep [] = [[]]"
| "split sep (c # cs) =
     (if c = sep then [] # split sep cs
      else (case split sep cs of [] \<Rightarrow> [[c]] | w # ws \<Rightarrow> (c # w) # ws))"

text \<open>
  \<^verbatim>\<open>charAt(0)\<close> and \<^verbatim>\<open>slice(1)\<close> cut a string after its first UTF-16 code unit. On the bytes
  that is after the first character, whose length its first byte gives, when the character
  has one, two or three bytes. A character of four bytes is a surrogate pair, which the two
  functions cut in the middle; \<open>firstLength\<close> tells that case apart.
\<close>

definition firstLength :: "string \<Rightarrow> nat" where
  "firstLength s =
     (case s of
        [] \<Rightarrow> 0
      | c # cs \<Rightarrow>
          (if (of_char c :: nat) < 128 then 1
           else if (of_char c :: nat) < 224 then 2
           else if (of_char c :: nat) < 240 then 3
           else 4))"

definition charAt0 :: "string \<Rightarrow> string" where
  "charAt0 s = take (firstLength s) s"

definition slice1 :: "string \<Rightarrow> string" where
  "slice1 s = drop (firstLength s) s"

text \<open>
  \<^verbatim>\<open>encodeURIComponent\<close> keeps letters, digits and \<^verbatim>\<open>- _ . ! ~ * ' ( )\<close> and writes every other
  byte as \<^verbatim>\<open>%\<close> and two upper-case hexadecimal digits.
\<close>

definition hexDigit :: "nat \<Rightarrow> char" where
  "hexDigit n = ''0123456789ABCDEF'' ! (n mod 16)"

definition uriUnreserved :: "char \<Rightarrow> bool" where
  "uriUnreserved c = (c \<in> set (upperLetters @ lowerLetters @ ''0123456789'' @ ''-_.!~*'()''))"

definition encodeChar :: "char \<Rightarrow> string" where
  "encodeChar c =
     (if uriUnreserved c then [c]
      else [CHR ''%'', hexDigit ((of_char c :: nat) div 16), hexDigit (of_char c :: nat)])"

definition encodeURIComponent :: "string \<Rightarrow> string" where
  "encodeURIComponent s = concat (map encodeChar s)"

section \<open>Data model\<close>

text \<open>
  Untyped values (the properties of an object that the client never inspects) are kept as
  JSON trees.
\<close>

datatype json = JNull | JBool bool | JNum int | JStr string | JArr "json list"
  | JObj "(string \<times> json) list"

text \<open>
  \<^verbatim>\<open>V1ObjectMeta\<close> and \<^verbatim>\<open>KubernetesObject\<close>: the optional properties the client reads and
  writes are fields of type \<open>option\<close> (\<open>None\<close> is \<^verbatim>\<open>undefined\<close>); every other property of the
  object is kept, untouched, in the last field.
\<close>

record V1ObjectMeta =
  name :: "string option"
  namespace :: "string option"
  metaRest :: "(string \<times> json) list"

record KubernetesObject =
  apiVersion :: "string option"
  kind :: "string option"
  metadata :: "V1ObjectMeta option"
  objectRest :: "(string \<times> json) list"

text \<open>\<^verbatim>\<open>V1APIResource\<close>: \<^verbatim>\<open>kind\<close>, \<^verbatim>\<open>name\<close> (the plural name) and \<^verbatim>\<open>namespaced\<close>.\<close>

record V1APIResource =
  resourceKind :: string
  resourceName :: string
  namespaced :: bool

text \<open>
  A body, as the transport hands it to the callback and as the serializer returns it, has
  the type \<^verbatim>\<open>any\<close>: it is \<^verbatim>\<open>undefined\<close>, \<^verbatim>\<open>null\<close>, or a value. Of a value the client reads the
  properties \<^verbatim>\<open>apiVersion\<close> and \<^verbatim>\<open>kind\<close>, each any JSON value or absent (\<open>None\<close>; a string or a
  number has neither), and \<^verbatim>\<open>resources\<close>, the array of descriptors of a
  \<^verbatim>\<open>V1APIResourceList\<close>, absent from every other value.
\<close>

record ResponseBody =
  bodyApiVersion :: "json option"
  bodyKind :: "json option"
  resources :: "V1APIResource list option"
  bodyRest :: "(string \<times> json) list"

datatype Body = Undefined | Null | Value ResponseBody

record IncomingMessage =
  statusCode :: "int option"
  messageRest :: "(string \<times> json) list"

datatype KubernetesApiAction = Create | Delete | Patch | Read | List | Replace

definition StrategicMergePatch :: string where
  "StrategicMergePatch = ''application/strategic-merge-patch+json''"

definition JsonPatch :: string where
  "JsonPatch = ''application/json-patch+json''"

definition MergePatch :: string where
  "MergePatch = ''application/merge-patch+json''"

datatype KubernetesEventType = ADDED | MODIFIED | DELETED | BOOKMARK | ERROR

record WatchObject =
  wtype :: KubernetesEventType
  wobject :: Body

record WatchOptions =
  allowWatchBookmarks :: "bool option"
  resourceVersion :: "string option"

record GroupVersion =
  group :: string
  version :: string

text \<open>Values of type \<^verbatim>\<open>any\<close>: what is handed to the serializer and put into a request.\<close>

datatype any = AUndefined | AString string | ANumber int | ABoolean bool
  | AObject KubernetesObject | ADeleteOptions "(string \<times> json) list" | AWire json

text \<open>\<^verbatim>\<open>request.Options\<close>, as the operations fill it (\<open>httpMethod\<close> is its \<^verbatim>\<open>method\<close>).\<close>

record Options =
  httpMethod :: string
  qs :: "string \<rightharpoonup> any"
  headers :: "string \<rightharpoonup> string"
  uri :: string
  useQuerystring :: bool
  jsonFlag :: bool
  body :: any

text \<open>
  Thrown values: an \<^verbatim>\<open>Error\<close> with its message (those this file creates, and those of the
  transport), an \<^verbatim>\<open>HttpError\<close> (response, body, status code, message), and a thrown value
  that is no instance of \<^verbatim>\<open>Error\<close>.
\<close>

datatype thrown = Error string
  | HttpError IncomingMessage Body "int option" string
  | NonError json

text \<open>
  An asynchronous call that returns no value has thrown one (its promise is rejected), or
  its promise is never settled.
\<close>

datatype failure = Thrown thrown | Pending

text \<open>What the transport passes to the callback: an error, or a response and its body.\<close>

datatype response = NetError thrown | NetResponse IncomingMessage Body

text \<open>
  The collaborators outside this file: the transport (its answer may depend on the requests
  sent before), \<^verbatim>\<open>ObjectSerializer\<close>, the message \<^verbatim>\<open>HttpError\<close> gives itself, the \<^verbatim>\<open>pathname\<close> of
  \<^verbatim>\<open>new URL(...)\<close>, and of the platform: the two case mappings of strings, the conversion of
  a value that is no string to a string, and the message of the \<^verbatim>\<open>TypeError\<close> thrown when the
  property named is read from, or called on, the value given (\<open>None\<close> for \<^verbatim>\<open>undefined\<close>).
\<close>

record env =
  request :: "Options list \<Rightarrow> Options \<Rightarrow> response"
  serialize :: "any \<Rightarrow> string \<Rightarrow> any"
  deserialize :: "Body \<Rightarrow> string \<Rightarrow> Body"
  httpErrorMessage :: string
  urlPathname :: "string \<Rightarrow> thrown + string"
  toLowerCase :: "string \<Rightarrow> string"
  toUpperCase :: "string \<Rightarrow> string"
  toStringValue :: "json \<Rightarrow> string"
  typeErrorMessage :: "json option \<Rightarrow> string \<Rightarrow> string"

text \<open>
  The client object: the fields of \<^verbatim>\<open>KubernetesObjectApi\<close> and of its base class that this
  file uses. The watcher is given by the calls it makes to the callback for a path and
  options. The last field is the history of the requests handed to the transport.
\<close>

type_synonym WatchCall = "KubernetesEventType \<times> Body \<times> WatchObject option"

record KubernetesObjectApi =
  basePath :: string
  defaultHeaders :: "string \<rightharpoonup> string"
  useQuerystringField :: bool
  bearerTokenApiKey :: "string option"
  bearerTokenApplyToRequest :: "Options \<Rightarrow> thrown + Options"
  defaultApplyToRequest :: "Options \<Rightarrow> thrown + Options"
  interceptors :: "(Options \<Rightarrow> thrown + Options) list"
  defaultNamespace :: string
  apiVersionResourceCache :: "string \<rightharpoonup> Body"
  watcher :: "(string \<Rightarrow> WatchOptions \<Rightarrow> thrown + WatchCall list) option"
  sent :: "Options list"

section \<open>The client\<close>

definition bindE :: "'e + 'a \<Rightarrow> ('a \<Rightarrow> 'e + 'b) \<Rightarrow> 'e + 'b" where
  "bindE r f = (case r of Inl e \<Rightarrow> Inl e | Inr v \<Rightarrow> f v)"

definition apiVersionPath :: "KubernetesObjectApi \<Rightarrow> string \<Rightarrow> string" where
  "apiVersionPath this av =
     (let api = (if includes_str av CHR ''/'' then ''apis'' else ''api'')
      in join ''/'' [basePath this, api, av])"

definition generateHeaders ::
  "KubernetesObjectApi \<Rightarrow> (string \<rightharpoonup> string) \<Rightarrow> string \<Rightarrow> (string \<rightharpoonup> string)" where
  "generateHeaders this optionsHeaders action =
     (let h0 = Map.empty ++ defaultHeaders this;
          h1 = h0(''accept'' \<mapsto> ''application/json'');
          h2 = (if action = ''PATCH'' then h1(''content-type'' \<mapsto> StrategicMergePatch) else h1)
      in h2 ++ optionsHeaders)"

definition groupVersion :: "string \<Rightarrow> GroupVersion" where
  "groupVersion av =
     (let v = split CHR ''/'' av
      in if length v = 1 then \<lparr>group = ''core'', version = av\<rparr>
         else \<lparr>group = v ! 0, version = v ! 1\<rparr>)"

text \<open>
  \<^verbatim>\<open>getSerializationType\<close> at run time, where its arguments are of any type: an argument
  counts as given unless it is \<^verbatim>\<open>undefined\<close>; \<^verbatim>\<open>split\<close> is called on the API version, which
  throws a \<^verbatim>\<open>TypeError\<close> unless that is a string; the kind is put into the template string,
  which converts a value that is no string.
\<close>

definition jsString :: "env \<Rightarrow> json \<Rightarrow> string" where
  "jsString ev v = (case v of JStr s \<Rightarrow> s | _ \<Rightarrow> toStringValue ev v)"

definition upperFirst :: "env \<Rightarrow> string \<Rightarrow> string" where
  "upperFirst ev v =
     (if firstLength v = 0 \<or> firstLength v = 4 then v
      else toUpperCase ev (charAt0 v) @ slice1 v)"

definition getSerializationType :: "env \<Rightarrow> json option \<Rightarrow> json option \<Rightarrow> thrown + string" where
  "getSerializationType ev av k =
     (case av of None \<Rightarrow> Inr ''KubernetesObject''
      | Some a \<Rightarrow>
          (case k of None \<Rightarrow> Inr ''KubernetesObject''
           | Some kd \<Rightarrow>
               (case a of
                  JStr s \<Rightarrow>
                    (let gv = groupVersion s;
                         v = upperFirst ev (version gv)
                     in Inr (v @ jsString ev kd))
                | _ \<Rightarrow> Inl (Error (typeErrorMessage ev (Some a) ''split'')))))"

text \<open>
  The type name of a body: \<^verbatim>\<open>getSerializationType(body.apiVersion, body.kind)\<close>. Reading a
  property of \<^verbatim>\<open>undefined\<close> or \<^verbatim>\<open>null\<close> throws a \<^verbatim>\<open>TypeError\<close>.
\<close>

definition bodyType :: "env \<Rightarrow> Body \<Rightarrow> thrown + string" where
  "bodyType ev b =
     (case b of
        Undefined \<Rightarrow> Inl (Error (typeErrorMessage ev None ''apiVersion''))
      | Null \<Rightarrow> Inl (Error (typeErrorMessage ev (Some JNull) ''apiVersion''))
      | Value r \<Rightarrow> getSerializationType ev (bodyApiVersion r) (bodyKind r))"

definition authenticate :: "KubernetesObjectApi \<Rightarrow> Options \<Rightarrow> thrown + Options" where
  "authenticate this ro =
     (let a1 = (if truthy (bearerTokenApiKey this) then bearerTokenApplyToRequest this ro
                else Inr ro);
          a2 = bindE a1 (defaultApplyToRequest this)
      in foldl bindE a2 (interceptors this))"

definition statusOk :: "int option \<Rightarrow> bool" where
  "statusOk c = (case c of None \<Rightarrow> False | Some n \<Rightarrow> n \<noteq> 0 \<and> 200 \<le> n \<and> n \<le> 299)"

text \<open>
  \<^verbatim>\<open>requestPromise\<close>. An error of authentication or of an interceptor rejects the promise
  before anything is sent. In the callback of the transport, an error rejects, and a
  response resolves or rejects by its status, after its body has been decoded. What is
  thrown inside the callback, when the type name is taken from the body, reaches neither
  \<^verbatim>\<open>resolve\<close> nor \<^verbatim>\<open>reject\<close>: the promise is never settled.
\<close>

definition requestPromise ::
  "env \<Rightarrow> KubernetesObjectApi \<Rightarrow> Options \<Rightarrow> string option
     \<Rightarrow> (failure + Body \<times> IncomingMessage) \<times> KubernetesObjectApi" where
  "requestPromise ev this requestOptions type =
     (case authenticate this requestOptions of
        Inl e \<Rightarrow> (Inl (Thrown e), this)
      | Inr ro \<Rightarrow>
          (let this' = this\<lparr>sent := sent this @ [ro]\<rparr>
           in case request ev (sent this) ro of
                NetError e \<Rightarrow> (Inl (Thrown e), this')
              | NetResponse rsp b \<Rightarrow>
                  (case (case type of None \<Rightarrow> bodyType ev b | Some t \<Rightarrow> Inr t) of
                     Inl e \<Rightarrow> (Inl Pending, this')
                   | Inr ty \<Rightarrow>
                       (let b' = deserialize ev b ty
                        in if statusOk (statusCode rsp) then (Inr (b', rsp), this')
                           else (Inl (Thrown (HttpError rsp b' (statusCode rsp)
                                                (httpErrorMessage ev))),
                                 this')))))"

fun prefixMessage :: "string \<Rightarrow> thrown \<Rightarrow> thrown" where
  "prefixMessage p (Error m) = Error (p @ m)"
| "prefixMessage p (HttpError rsp b c m) = HttpError rsp b c (p @ m)"
| "prefixMessage p (NonError v) = NonError v"

definition metadataOptions :: "KubernetesObjectApi \<Rightarrow> string \<Rightarrow> Options" where
  "metadataOptions this av =
     \<lparr>httpMethod = ''GET'', qs = Map.empty, headers = generateHeaders this Map.empty ''GET'',
      uri = apiVersionPath this av, useQuerystring = useQuerystringField this,
      jsonFlag = True, body = AUndefined\<rparr>"

text \<open>
  The cache is a plain object. Reading it at a name gives the entry stored under the name,
  else what the object inherits under that name from \<^verbatim>\<open>Object.prototype\<close> (a function, or for
  \<^verbatim>\<open>__proto__\<close> the prototype itself, whatever is stored: values without \<^verbatim>\<open>resources\<close>), else
  \<^verbatim>\<open>undefined\<close>.
\<close>

definition objectPrototypeKeys :: "string list" where
  "objectPrototypeKeys =
     [''constructor'', ''__proto__'', ''toString'', ''toLocaleString'', ''valueOf'',
      ''hasOwnProperty'', ''isPrototypeOf'', ''propertyIsEnumerable'', ''__defineGetter__'',
      ''__defineSetter__'', ''__lookupGetter__'', ''__lookupSetter__'']"

definition inherited :: Body where
  "inherited =
     Value \<lparr>bodyApiVersion = None, bodyKind = None, resources = None, bodyRest = []\<rparr>"

definition cacheEntry :: "KubernetesObjectApi \<Rightarrow> string \<Rightarrow> Body" where
  "cacheEntry this av =
     (if av = ''__proto__'' then inherited
      else (case apiVersionResourceCache this av of
              Some b \<Rightarrow> b
            | None \<Rightarrow> if av \<in> set objectPrototypeKeys then inherited else Undefined))"

text \<open>
  \<^verbatim>\<open>entry.resources.find((r) => r.kind === kind)\<close>: reading \<^verbatim>\<open>resources\<close> of \<^verbatim>\<open>undefined\<close> or
  \<^verbatim>\<open>null\<close>, and calling \<^verbatim>\<open>find\<close> on absent \<^verbatim>\<open>resources\<close>, throws a \<^verbatim>\<open>TypeError\<close>.
\<close>

definition findKind :: "env \<Rightarrow> Body \<Rightarrow> string \<Rightarrow> thrown + V1APIResource option" where
  "findKind ev entry k =
     (case entry of
        Undefined \<Rightarrow> Inl (Error (typeErrorMessage ev None ''resources''))
      | Null \<Rightarrow> Inl (Error (typeErrorMessage ev (Some JNull) ''resources''))
      | Value l \<Rightarrow>
          (case resources l of
             None \<Rightarrow> Inl (Error (typeErrorMessage ev None ''find''))
           | Some rs \<Rightarrow> Inr (find (\<lambda>r. resourceKind r = k) rs)))"

text \<open>
  The look-up in the cache that comes first in \<^verbatim>\<open>resource\<close>: an entry that is \<^verbatim>\<open>undefined\<close> or
  \<^verbatim>\<open>null\<close> is skipped, any other is searched.
\<close>

definition cached ::
  "env \<Rightarrow> KubernetesObjectApi \<Rightarrow> string \<Rightarrow> string \<Rightarrow> thrown + V1APIResource option" where
  "cached ev this av k =
     (case cacheEntry this av of
        Undefined \<Rightarrow> Inr None
      | Null \<Rightarrow> Inr None
      | Value l \<Rightarrow> findKind ev (Value l) k)"

text \<open>
  \<^verbatim>\<open>resource\<close>. What the look-up throws is thrown on. Without a descriptor from the cache the
  metadata are fetched; the body of the answer is stored and then read back from the cache
  and searched. What is thrown between the fetch and the return, a \<^verbatim>\<open>TypeError\<close> of the search
  included, is caught and thrown again, its message prefixed when it is an \<^verbatim>\<open>Error\<close>.
\<close>

definition resource ::
  "env \<Rightarrow> KubernetesObjectApi \<Rightarrow> string option \<Rightarrow> string option
     \<Rightarrow> (failure + V1APIResource option) \<times> KubernetesObjectApi" where
  "resource ev this apiVersion' kind' =
     (case apiVersion' of
        None \<Rightarrow>
          (Inl (Thrown (Error
             ''Required parameter apiVersion was null or undefined when calling resource'')),
           this)
      | Some av \<Rightarrow>
          (case kind' of
             None \<Rightarrow>
               (Inl (Thrown (Error
                  ''Required parameter kind was null or undefined when calling resource'')),
                this)
           | Some k \<Rightarrow>
               (case cached ev this av k of
                  Inl e \<Rightarrow> (Inl (Thrown e), this)
                | Inr (Some r) \<Rightarrow> (Inr (Some r), this)
                | Inr None \<Rightarrow>
                    (let prefix = ''Failed to fetch resource metadata for '' @ av @ ''/'' @ k
                                    @ '': ''
                     in case requestPromise ev this (metadataOptions this av)
                               (Some ''V1APIResourceList'') of
                          (Inr (b, rsp), this') \<Rightarrow>
                            (let this'' = this'\<lparr>apiVersionResourceCache :=
                                   (apiVersionResourceCache this')(av \<mapsto> b)\<rparr>
                             in case findKind ev (cacheEntry this'' av) k of
                                  Inl e \<Rightarrow> (Inl (Thrown (prefixMessage prefix e)), this'')
                                | Inr r \<Rightarrow> (Inr r, this''))
                        | (Inl (Thrown e), this') \<Rightarrow>
                            (Inl (Thrown (prefixMessage prefix e)), this')
                        | (Inl Pending, this') \<Rightarrow> (Inl Pending, this')))))"

definition emptyMeta :: V1ObjectMeta where
  "emptyMeta = \<lparr>name = None, namespace = None, metaRest = []\<rparr>"

text \<open>
  \<^verbatim>\<open>specUriPath\<close> writes to the \<^verbatim>\<open>spec\<close> it is given and, through \<^verbatim>\<open>resource\<close>, to the cache;
  both writes stay when it throws afterwards, so the model returns the result together
  with the spec and the client as they are left.
\<close>

definition specUriPath ::
  "env \<Rightarrow> KubernetesObjectApi \<Rightarrow> KubernetesObject \<Rightarrow> KubernetesApiAction
     \<Rightarrow> (failure + string) \<times> KubernetesObject \<times> KubernetesObjectApi" where
  "specUriPath ev this spec action =
     (if \<not> truthy (kind spec) then
        (Inl (Thrown (Error ''Required spec property kind is not set'')), spec, this)
      else
        (let spec1 = (if \<not> truthy (apiVersion spec) then spec\<lparr>apiVersion := Some ''v1''\<rparr>
                      else spec);
             spec2 = (if metadata spec1 = None then spec1\<lparr>metadata := Some emptyMeta\<rparr>
                      else spec1);
             av = (case apiVersion spec2 of None \<Rightarrow> [] | Some a \<Rightarrow> a);
             k = (case kind spec2 of None \<Rightarrow> [] | Some a \<Rightarrow> a);
             md = (case metadata spec2 of None \<Rightarrow> emptyMeta | Some m \<Rightarrow> m)
         in case resource ev this (apiVersion spec2) (kind spec2) of
              (Inl e, this') \<Rightarrow> (Inl e, spec2, this')
            | (Inr None, this') \<Rightarrow>
                (Inl (Thrown (Error
                   (''Unrecognized API version and kind: '' @ av @ '' '' @ k))),
                 spec2, this')
            | (Inr (Some r), this') \<Rightarrow>
                (let md3 = (if namespaced r \<and> \<not> truthy (namespace md) \<and> action \<noteq> List
                            then md\<lparr>namespace := Some (defaultNamespace this')\<rparr> else md);
                     spec3 = spec2\<lparr>metadata := Some md3\<rparr>;
                     parts0 = [apiVersionPath this' av];
                     parts1 = (if namespaced r \<and> truthy (namespace md3)
                               then parts0 @ [''namespaces'',
                                      encodeURIComponent
                                        (case namespace md3 of None \<Rightarrow> [] | Some n \<Rightarrow> n)]
                               else parts0);
                     parts2 = parts1 @ [resourceName r]
                 in if action \<noteq> Create \<and> action \<noteq> List then
                      (if \<not> truthy (name md3) then
                         (Inl (Thrown (Error ''Required spec property name is not set'')),
                          spec3, this')
                       else
                         (Inr (toLowerCase ev (join ''/''
                                 (parts2 @ [encodeURIComponent
                                      (case name md3 of None \<Rightarrow> [] | Some n \<Rightarrow> n)]))),
                          spec3, this'))
                    else (Inr (toLowerCase ev (join ''/'' parts2)), spec3, this'))))"

text \<open>
  Each operation sets a query parameter when its argument is not \<^verbatim>\<open>undefined\<close>; the value
  goes through the serializer with the primitive's type name.
\<close>

definition setParam ::
  "env \<Rightarrow> string \<Rightarrow> string \<Rightarrow> any option \<Rightarrow> (string \<rightharpoonup> any) \<Rightarrow> (string \<rightharpoonup> any)" where
  "setParam ev nm ty v q = (case v of None \<Rightarrow> q | Some x \<Rightarrow> q(nm \<mapsto> serialize ev x ty))"

type_synonym result =
  "(failure + Body \<times> IncomingMessage) \<times> KubernetesObject option \<times> KubernetesObjectApi"

definition createOptions ::
  "env \<Rightarrow> KubernetesObjectApi \<Rightarrow> string \<Rightarrow> KubernetesObject \<Rightarrow> string option \<Rightarrow> string option
     \<Rightarrow> string option \<Rightarrow> (string \<rightharpoonup> string) \<Rightarrow> Options" where
  "createOptions ev this localVarPath spec pretty dryRun fieldManager optionsHeaders =
     (let q0 = Map.empty;
          h = generateHeaders this optionsHeaders ''GET'';
          q1 = setParam ev ''pretty'' ''string'' (map_option AString pretty) q0;
          q2 = setParam ev ''dryRun'' ''string'' (map_option AString dryRun) q1;
          q3 = setParam ev ''fieldManager'' ''string'' (map_option AString fieldManager) q2
      in \<lparr>httpMethod = ''POST'', qs = q3, headers = h, uri = localVarPath,
          useQuerystring = useQuerystringField this, jsonFlag = True,
          body = serialize ev (AObject spec) ''KubernetesObject''\<rparr>)"

definition create ::
  "env \<Rightarrow> KubernetesObjectApi \<Rightarrow> KubernetesObject option \<Rightarrow> string option \<Rightarrow> string option
     \<Rightarrow> string option \<Rightarrow> (string \<rightharpoonup> string) \<Rightarrow> result" where
  "create ev this spec pretty dryRun fieldManager optionsHeaders =
     (case spec of
        None \<Rightarrow>
          (Inl (Thrown (Error
             ''Required parameter spec was null or undefined when calling create.'')),
           None, this)
      | Some s \<Rightarrow>
          (case specUriPath ev this s Create of
             (Inl e, s', this') \<Rightarrow> (Inl e, Some s', this')
           | (Inr localVarPath, s', this') \<Rightarrow>
               (case requestPromise ev this'
                       (createOptions ev this' localVarPath s' pretty dryRun fieldManager
                          optionsHeaders) None of
                  (r, this'') \<Rightarrow> (r, Some s', this''))))"

definition deleteOptions ::
  "env \<Rightarrow> KubernetesObjectApi \<Rightarrow> string \<Rightarrow> string option \<Rightarrow> string option \<Rightarrow> int option
     \<Rightarrow> bool option \<Rightarrow> string option \<Rightarrow> (string \<times> json) list option
     \<Rightarrow> (string \<rightharpoonup> string) \<Rightarrow> Options" where
  "deleteOptions ev this localVarPath pretty dryRun gracePeriodSeconds orphanDependents
       propagationPolicy deleteBody optionsHeaders =
     (let q0 = Map.empty;
          h = generateHeaders this optionsHeaders ''GET'';
          q1 = setParam ev ''pretty'' ''string'' (map_option AString pretty) q0;
          q2 = setParam ev ''dryRun'' ''string'' (map_option AString dryRun) q1;
          q3 = setParam ev ''gracePeriodSeconds'' ''number''
                 (map_option ANumber gracePeriodSeconds) q2;
          q4 = setParam ev ''orphanDependents'' ''boolean''
                 (map_option ABoolean orphanDependents) q3;
          q5 = setParam ev ''propagationPolicy'' ''string''
                 (map_option AString propagationPolicy) q4
      in \<lparr>httpMethod = ''DELETE'', qs = q5, headers = h, uri = localVarPath,
          useQuerystring = useQuerystringField this, jsonFlag = True,
          body = serialize ev
                   (case deleteBody of None \<Rightarrow> AUndefined | Some d \<Rightarrow> ADeleteOptions d)
                   ''V1DeleteOptions''\<rparr>)"

definition delete ::
  "env \<Rightarrow> KubernetesObjectApi \<Rightarrow> KubernetesObject option \<Rightarrow> string option \<Rightarrow> string option
     \<Rightarrow> int option \<Rightarrow> bool option \<Rightarrow> string option \<Rightarrow> (string \<times> json) list option
     \<Rightarrow> (string \<rightharpoonup> string) \<Rightarrow> result" where
  "delete ev this spec pretty dryRun gracePeriodSeconds orphanDependents propagationPolicy
       deleteBody optionsHeaders =
     (case spec of
        None \<Rightarrow>
          (Inl (Thrown (Error
             ''Required parameter spec was null or undefined when calling delete.'')),
           None, this)
      | Some s \<Rightarrow>
          (case specUriPath ev this s Delete of
             (Inl e, s', this') \<Rightarrow> (Inl e, Some s', this')
           | (Inr localVarPath, s', this') \<Rightarrow>
               (case requestPromise ev this'
                       (deleteOptions ev this' localVarPath pretty dryRun gracePeriodSeconds
                          orphanDependents propagationPolicy deleteBody optionsHeaders)
                       (Some ''V1Status'') of
                  (r, this'') \<Rightarrow> (r, Some s', this''))))"

definition patchOptions ::
  "env \<Rightarrow> KubernetesObjectApi \<Rightarrow> string \<Rightarrow> KubernetesObject \<Rightarrow> string option \<Rightarrow> string option
     \<Rightarrow> string option \<Rightarrow> bool option \<Rightarrow> (string \<rightharpoonup> string) \<Rightarrow> Options" where
  "patchOptions ev this localVarPath spec pretty dryRun fieldManager force optionsHeaders =
     (let q0 = Map.empty;
          h = generateHeaders this optionsHeaders ''PATCH'';
          q1 = setParam ev ''pretty'' ''string'' (map_option AString pretty) q0;
          q2 = setParam ev ''dryRun'' ''string'' (map_option AString dryRun) q1;
          q3 = setParam ev ''fieldManager'' ''string'' (map_option AString fieldManager) q2;
          q4 = setParam ev ''force'' ''boolean'' (map_option ABoolean force) q3
      in \<lparr>httpMethod = ''PATCH'', qs = q4, headers = h, uri = localVarPath,
          useQuerystring = useQuerystringField this, jsonFlag = True,
          body = serialize ev (AObject spec) ''object''\<rparr>)"

definition patch ::
  "env \<Rightarrow> KubernetesObjectApi \<Rightarrow> KubernetesObject option \<Rightarrow> string option \<Rightarrow> string option
     \<Rightarrow> string option \<Rightarrow> bool option \<Rightarrow> (string \<rightharpoonup> string) \<Rightarrow> result" where
  "patch ev this spec pretty dryRun fieldManager force optionsHeaders =
     (case spec of
        None \<Rightarrow>
          (Inl (Thrown (Error
             ''Required parameter spec was null or undefined when calling patch.'')),
           None, this)
      | Some s \<Rightarrow>
          (case specUriPath ev this s Patch of
             (Inl e, s', this') \<Rightarrow> (Inl e, Some s', this')
           | (Inr localVarPath, s', this') \<Rightarrow>
               (case requestPromise ev this'
                       (patchOptions ev this' localVarPath s' pretty dryRun fieldManager force
                          optionsHeaders) None of
                  (r, this'') \<Rightarrow> (r, Some s', this''))))"

definition readOptions ::
  "env \<Rightarrow> KubernetesObjectApi \<Rightarrow> string \<Rightarrow> string option \<Rightarrow> bool option \<Rightarrow> bool option
     \<Rightarrow> (string \<rightharpoonup> string) \<Rightarrow> Options" where
  "readOptions ev this localVarPath pretty exact exportt optionsHeaders =
     (let q0 = Map.empty;
          h = generateHeaders this optionsHeaders ''GET'';
          q1 = setParam ev ''pretty'' ''string'' (map_option AString pretty) q0;
          q2 = setParam ev ''exact'' ''boolean'' (map_option ABoolean exact) q1;
          q3 = setParam ev ''export'' ''boolean'' (map_option ABoolean exportt) q2
      in \<lparr>httpMethod = ''GET'', qs = q3, headers = h, uri = localVarPath,
          useQuerystring = useQuerystringField this, jsonFlag = True, body = AUndefined\<rparr>)"

definition read ::
  "env \<Rightarrow> KubernetesObjectApi \<Rightarrow> KubernetesObject option \<Rightarrow> string option \<Rightarrow> bool option
     \<Rightarrow> bool option \<Rightarrow> (string \<rightharpoonup> string) \<Rightarrow> result" where
  "read ev this spec pretty exact exportt optionsHeaders =
     (case spec of
        None \<Rightarrow>
          (Inl (Thrown (Error
             ''Required parameter spec was null or undefined when calling read.'')),
           None, this)
      | Some s \<Rightarrow>
          (if kind s = None then
             (Inl (Thrown (Error
                ''Required parameter spec.kind was null or undefined when calling read.'')),
              Some s, this)
           else if \<not> truthy (apiVersion s) then
             (Inl (Thrown (Error
                ''Required parameter spec.apiVersion was null or undefined when calling read.'')),
              Some s, this)
           else
             (case specUriPath ev this s Read of
                (Inl e, s', this') \<Rightarrow> (Inl e, Some s', this')
              | (Inr localVarPath, s', this') \<Rightarrow>
                  (case requestPromise ev this'
                          (readOptions ev this' localVarPath pretty exact exportt
                             optionsHeaders) None of
                     (r, this'') \<Rightarrow> (r, Some s', this'')))))"

definition listOptions ::
  "env \<Rightarrow> KubernetesObjectApi \<Rightarrow> string \<Rightarrow> string option \<Rightarrow> bool option \<Rightarrow> bool option
     \<Rightarrow> string option \<Rightarrow> string option \<Rightarrow> int option \<Rightarrow> string option
     \<Rightarrow> (string \<rightharpoonup> string) \<Rightarrow> Options" where
  "listOptions ev this localVarPath pretty exact exportt fieldSelector labelSelector limit
       continueToken optionsHeaders =
     (let q0 = Map.empty;
          h = generateHeaders this optionsHeaders ''GET'';
          q1 = setParam ev ''pretty'' ''string'' (map_option AString pretty) q0;
          q2 = setParam ev ''exact'' ''boolean'' (map_option ABoolean exact) q1;
          q3 = setParam ev ''export'' ''boolean'' (map_option ABoolean exportt) q2;
          q4 = setParam ev ''fieldSelector'' ''string'' (map_option AString fieldSelector) q3;
          q5 = setParam ev ''labelSelector'' ''string'' (map_option AString labelSelector) q4;
          q6 = setParam ev ''limit'' ''number'' (map_option ANumber limit) q5;
          q7 = setParam ev ''continue'' ''string'' (map_option AString continueToken) q6
      in \<lparr>httpMethod = ''GET'', qs = q7, headers = h, uri = localVarPath,
          useQuerystring = useQuerystringField this, jsonFlag = True, body = AUndefined\<rparr>)"

text \<open>
  \<^verbatim>\<open>list\<close> and \<^verbatim>\<open>watch\<close> take no spec: they build a fresh one from their arguments, which
  \<^verbatim>\<open>specUriPath\<close> then writes to and which is dropped afterwards.
\<close>

definition listSpec :: "string \<Rightarrow> string \<Rightarrow> string option \<Rightarrow> KubernetesObject" where
  "listSpec av k ns =
     \<lparr>apiVersion = Some av, kind = Some k,
      metadata = Some \<lparr>name = None, namespace = ns, metaRest = []\<rparr>, objectRest = []\<rparr>"

definition list ::
  "env \<Rightarrow> KubernetesObjectApi \<Rightarrow> string option \<Rightarrow> string option \<Rightarrow> string option
     \<Rightarrow> string option \<Rightarrow> bool option \<Rightarrow> bool option \<Rightarrow> string option \<Rightarrow> string option
     \<Rightarrow> int option \<Rightarrow> string option \<Rightarrow> (string \<rightharpoonup> string)
     \<Rightarrow> (failure + Body \<times> IncomingMessage) \<times> KubernetesObjectApi" where
  "list ev this apiVersion' kind' namespace' pretty exact exportt fieldSelector labelSelector
       limit continueToken optionsHeaders =
     (case apiVersion' of
        None \<Rightarrow>
          (Inl (Thrown (Error
             ''Required parameter apiVersion was null or undefined when calling list.'')),
           this)
      | Some av \<Rightarrow>
          (case kind' of
             None \<Rightarrow>
               (Inl (Thrown (Error
                  ''Required parameter kind was null or undefined when calling list.'')),
                this)
           | Some k \<Rightarrow>
               (case specUriPath ev this (listSpec av k namespace') List of
                  (Inl e, s', this') \<Rightarrow> (Inl e, this')
                | (Inr localVarPath, s', this') \<Rightarrow>
                    requestPromise ev this'
                      (listOptions ev this' localVarPath pretty exact exportt fieldSelector
                         labelSelector limit continueToken optionsHeaders) None)))"

definition replaceOptions ::
  "env \<Rightarrow> KubernetesObjectApi \<Rightarrow> string \<Rightarrow> KubernetesObject \<Rightarrow> string option \<Rightarrow> string option
     \<Rightarrow> string option \<Rightarrow> (string \<rightharpoonup> string) \<Rightarrow> Options" where
  "replaceOptions ev this localVarPath spec pretty dryRun fieldManager optionsHeaders =
     (let q0 = Map.empty;
          h = generateHeaders this optionsHeaders ''GET'';
          q1 = setParam ev ''pretty'' ''string'' (map_option AString pretty) q0;
          q2 = setParam ev ''dryRun'' ''string'' (map_option AString dryRun) q1;
          q3 = setParam ev ''fieldManager'' ''string'' (map_option AString fieldManager) q2
      in \<lparr>httpMethod = ''PUT'', qs = q3, headers = h, uri = localVarPath,
          useQuerystring = useQuerystringField this, jsonFlag = True,
          body = serialize ev (AObject spec) ''KubernetesObject''\<rparr>)"

definition replace ::
  "env \<Rightarrow> KubernetesObjectApi \<Rightarrow> KubernetesObject option \<Rightarrow> string option \<Rightarrow> string option
     \<Rightarrow> string option \<Rightarrow> (string \<rightharpoonup> string) \<Rightarrow> result" where
  "replace ev this spec pretty dryRun fieldManager optionsHeaders =
     (case spec of
        None \<Rightarrow>
          (Inl (Thrown (Error
             ''Required parameter spec was null or undefined when calling replace.'')),
           None, this)
      | Some s \<Rightarrow>
          (case specUriPath ev this s Replace of
             (Inl e, s', this') \<Rightarrow> (Inl e, Some s', this')
           | (Inr localVarPath, s', this') \<Rightarrow>
               (case requestPromise ev this'
                       (replaceOptions ev this' localVarPath s' pretty dryRun fieldManager
                          optionsHeaders) None of
                  (r, this'') \<Rightarrow> (r, Some s', this''))))"

text \<open>
  \<^verbatim>\<open>watch\<close>: the result is the list of calls the caller's callback receives, one for each
  call the watcher makes to the wrapping callback \<^verbatim>\<open>cb\<close>.
\<close>

definition cb :: "env \<Rightarrow> string \<Rightarrow> WatchCall \<Rightarrow> WatchCall" where
  "cb ev type c =
     (case c of (phase, apiObj, watchObj) \<Rightarrow>
        (let obj = deserialize ev apiObj type
         in (phase, obj, map_option (\<lambda>w. w\<lparr>wobject := obj\<rparr>) watchObj)))"

definition watch ::
  "env \<Rightarrow> KubernetesObjectApi \<Rightarrow> string \<Rightarrow> string \<Rightarrow> string option \<Rightarrow> WatchOptions
     \<Rightarrow> (failure + WatchCall list) \<times> KubernetesObjectApi" where
  "watch ev this resourceApiVersion resourceKind' resourceNamespace options =
     (case watcher this of
        None \<Rightarrow> (Inl (Thrown (Error ''Watcher not initialized'')), this)
      | Some w \<Rightarrow>
          (case specUriPath ev this
                  (listSpec resourceApiVersion resourceKind' resourceNamespace) List of
             (Inl e, s', this') \<Rightarrow> (Inl e, this')
           | (Inr p, s', this') \<Rightarrow>
               (case urlPathname ev p of
                  Inl e \<Rightarrow> (Inl (Thrown e), this')
                | Inr resourcePath \<Rightarrow>
                    (case getSerializationType ev (Some (JStr resourceApiVersion))
                            (Some (JStr resourceKind')) of
                       Inl e \<Rightarrow> (Inl (Thrown e), this')
                     | Inr type \<Rightarrow>
                         (case w resourcePath options of
                            Inl e \<Rightarrow> (Inl (Thrown e), this')
                          | Inr calls \<Rightarrow> (Inr (map (cb ev type) calls), this'))))))"

section \<open>Notions used in the statements\<close>

text \<open>
  The API version, the metadata and the namespace that path building works with: the spec's
  own where they are set, the defaults where they are not.
\<close>

definition specApiVersion :: "KubernetesObject \<Rightarrow> string" where
  "specApiVersion spec =
     (case apiVersion spec of None \<Rightarrow> ''v1'' | Some a \<Rightarrow> if a = [] then ''v1'' else a)"

definition specMeta :: "KubernetesObject \<Rightarrow> V1ObjectMeta" where
  "specMeta spec = (case metadata spec of None \<Rightarrow> emptyMeta | Some m \<Rightarrow> m)"

definition filledNamespace ::
  "KubernetesObjectApi \<Rightarrow> KubernetesObject \<Rightarrow> V1APIResource \<Rightarrow> KubernetesApiAction
     \<Rightarrow> string option" where
  "filledNamespace this spec r action =
     (if namespaced r \<and> \<not> truthy (namespace (specMeta spec)) \<and> action \<noteq> List
      then Some (defaultNamespace this) else namespace (specMeta spec))"

definition singleObject :: "KubernetesApiAction \<Rightarrow> bool" where
  "singleObject a = (a = Read \<or> a = Replace \<or> a = Patch \<or> a = Delete)"

definition rootSegment :: "string \<Rightarrow> string" where
  "rootSegment av = (if includes_str av CHR ''/'' then ''apis'' else ''api'')"

text \<open>
  In the client \<open>t\<close>, the request sent last was answered with the response \<open>rsp\<close> and the
  body \<open>b\<close>.
\<close>

definition answered ::
  "env \<Rightarrow> KubernetesObjectApi \<Rightarrow> IncomingMessage \<Rightarrow> Body \<Rightarrow> bool" where
  "answered ev t rsp b =
     (sent t \<noteq> [] \<and> request ev (butlast (sent t)) (last (sent t)) = NetResponse rsp b)"

text \<open>
  The segments of a path as the specification lists them: base path, root segment, API
  version, the namespace pair, the plural name, the object name.
\<close>

definition pathSegments ::
  "KubernetesObjectApi \<Rightarrow> KubernetesObject \<Rightarrow> V1APIResource \<Rightarrow> KubernetesApiAction
     \<Rightarrow> string list" where
  "pathSegments this spec r action =
     [basePath this, rootSegment (specApiVersion spec), specApiVersion spec]
     @ (if namespaced r \<and> truthy (filledNamespace this spec r action)
        then [''namespaces'', encodeURIComponent (the (filledNamespace this spec r action))]
        else [])
     @ [resourceName r]
     @ (if singleObject action then [encodeURIComponent (the (name (specMeta spec)))] else [])"

section \<open>Example values\<close>

definition exOk :: IncomingMessage where
  "exOk = \<lparr>statusCode = Some 200, messageRest = []\<rparr>"

definition exConflict :: IncomingMessage where
  "exConflict = \<lparr>statusCode = Some 409, messageRest = []\<rparr>"

definition exCoreResources :: "V1APIResource list" where
  "exCoreResources =
     [\<lparr>resourceKind = ''Pod'', resourceName = ''pods'', namespaced = True\<rparr>,
      \<lparr>resourceKind = ''Node'', resourceName = ''nodes'', namespaced = False\<rparr>]"

definition exCoreList :: Body where
  "exCoreList =
     Value \<lparr>bodyApiVersion = Some (JStr ''v1''), bodyKind = Some (JStr ''APIResourceList''),
      resources = Some exCoreResources, bodyRest = []\<rparr>"

definition exAppsList :: Body where
  "exAppsList =
     Value \<lparr>bodyApiVersion = Some (JStr ''v1''), bodyKind = Some (JStr ''APIResourceList''),
      resources = Some
        [\<lparr>resourceKind = ''Deployment'', resourceName = ''deployments'',
          namespaced = True\<rparr>],
      bodyRest = []\<rparr>"

definition exPodBody :: Body where
  "exPodBody =
     Value \<lparr>bodyApiVersion = Some (JStr ''v1''), bodyKind = Some (JStr ''Pod''),
      resources = None, bodyRest = []\<rparr>"

definition exStatusBody :: Body where
  "exStatusBody =
     Value \<lparr>bodyApiVersion = Some (JStr ''v1''), bodyKind = Some (JStr ''Status''),
      resources = None, bodyRest = []\<rparr>"

text \<open>A serializer stand-in that records in a value the type name it was called with.\<close>

definition exDeserialize :: "Body \<Rightarrow> string \<Rightarrow> Body" where
  "exDeserialize b t =
     (case b of
        Value r \<Rightarrow> Value (r\<lparr>bodyRest := (''decodedAs'', JStr t) # bodyRest r\<rparr>)
      | _ \<Rightarrow> b)"

text \<open>
  A server that answers the discovery request of the core group with its resource list and
  every other request with a pod; one that refuses every connection; one that answers
  every other request with a conflict; one that answers every request with a status; and
  one that answers every other request with a conflict and no body.
\<close>

definition exRequest :: "Options list \<Rightarrow> Options \<Rightarrow> response" where
  "exRequest hist ro =
     (if uri ro = ''http://k8s/api/v1'' then NetResponse exOk exCoreList
      else NetResponse exOk exPodBody)"

definition exTypeError :: "json option \<Rightarrow> string \<Rightarrow> string" where
  "exTypeError v p =
     ''Cannot read properties of ''
       @ (case v of None \<Rightarrow> ''undefined'' | Some x \<Rightarrow> ''null'') @ '' (reading '' @ p @ '')''"

definition exEnv :: env where
  "exEnv = \<lparr>request = exRequest, serialize = (\<lambda>v t. v), deserialize = exDeserialize,
            httpErrorMessage = ''HTTP request failed'', urlPathname = (\<lambda>p. Inr (drop 10 p)),
            toLowerCase = asciiLowerCase, toUpperCase = asciiUpperCase,
            toStringValue = (\<lambda>v. ''[object Object]''), typeErrorMessage = exTypeError\<rparr>"

definition exDownEnv :: env where
  "exDownEnv = exEnv\<lparr>request := (\<lambda>hist ro. NetError (Error ''ECONNREFUSED''))\<rparr>"

definition exConflictEnv :: env where
  "exConflictEnv = exEnv\<lparr>request := (\<lambda>hist ro.
      if uri ro = ''http://k8s/api/v1'' then NetResponse exOk exCoreList
      else NetResponse exConflict exStatusBody)\<rparr>"

definition exStatusEnv :: env where
  "exStatusEnv = exEnv\<lparr>request := (\<lambda>hist ro. NetResponse exOk exStatusBody)\<rparr>"

definition exNoBodyEnv :: env where
  "exNoBodyEnv = exEnv\<lparr>request := (\<lambda>hist ro.
      if uri ro = ''http://k8s/api/v1'' then NetResponse exOk exCoreList
      else NetResponse exConflict Undefined)\<rparr>"

definition exWatcher :: "string \<Rightarrow> WatchOptions \<Rightarrow> thrown + WatchCall list" where
  "exWatcher path options =
     Inr [(ERROR, exStatusBody, Some \<lparr>wtype = ERROR, wobject = exStatusBody\<rparr>)]"

definition exThis :: KubernetesObjectApi where
  "exThis =
     \<lparr>basePath = ''http://k8s'', defaultHeaders = Map.empty, useQuerystringField = False,
      bearerTokenApiKey = None, bearerTokenApplyToRequest = Inr, defaultApplyToRequest = Inr,
      interceptors = [], defaultNamespace = ''default'', apiVersionResourceCache = Map.empty,
      watcher = Some exWatcher, sent = []\<rparr>"

definition exCachedThis :: KubernetesObjectApi where
  "exCachedThis = exThis\<lparr>apiVersionResourceCache := [''v1'' \<mapsto> exCoreList,
      ''apps/v1'' \<mapsto> exAppsList]\<rparr>"

definition exPod :: KubernetesObject where
  "exPod =
     \<lparr>apiVersion = None, kind = Some ''Pod'',
      metadata = Some \<lparr>name = Some ''Foo'', namespace = None, metaRest = []\<rparr>,
      objectRest = []\<rparr>"

definition exDeployment :: KubernetesObject where
  "exDeployment =
     \<lparr>apiVersion = Some ''apps/v1'', kind = Some ''Deployment'',
      metadata = Some \<lparr>name = Some ''Foo/Bar?'', namespace = Some ''Team A'', metaRest = []\<rparr>,
      objectRest = []\<rparr>"

definition exNoKind :: KubernetesObject where
  "exNoKind = exPod\<lparr>kind := None\<rparr>"

definition exNoName :: KubernetesObject where
  "exNoName = exPod\<lparr>metadata := Some \<lparr>name = None, namespace = None, metaRest = []\<rparr>\<rparr>"

definition exFoo :: KubernetesObject where
  "exFoo = exPod\<lparr>apiVersion := Some ''v1'', kind := Some ''Foo''\<rparr>"

section \<open>Properties\<close>

subsection \<open>Auxiliary facts\<close>

lemma join_path_head:
  "join sep (join sep [a, b, c] # rest) = join sep ([a, b, c] @ rest)"
  by (cases rest) simp_all

lemma requestPromise_frame:
  "requestPromise ev this ro ty = (r, this') \<Longrightarrow>
     this' = this \<or> (\<exists>q. this' = this\<lparr>sent := sent this @ [q]\<rparr>)"
  by (auto simp: requestPromise_def Let_def split: sum.splits response.splits if_splits)

lemma resource_frame:
  assumes "resource ev this a k = (r, this')"
  shows "basePath this' = basePath this \<and> defaultNamespace this' = defaultNamespace this
       \<and> defaultHeaders this' = defaultHeaders this \<and> watcher this' = watcher this
       \<and> useQuerystringField this' = useQuerystringField this"
  using assms
  by (auto simp: resource_def Let_def
      split: option.splits prod.splits sum.splits failure.splits
      dest!: requestPromise_frame)

lemma singleObject_iff: "(a \<noteq> Create \<and> a \<noteq> List) = singleObject a"
  by (cases a) (simp_all add: singleObject_def)

lemma specUriPath_prefix:
  assumes "kind spec = Some k" "k \<noteq> []"
  shows "specUriPath ev this spec action =
    (let spec2 = spec\<lparr>apiVersion := Some (specApiVersion spec), metadata := Some (specMeta spec)\<rparr>;
         av = specApiVersion spec; md = specMeta spec
     in case resource ev this (Some av) (Some k) of
              (Inl e, this') \<Rightarrow> (Inl e, spec2, this')
            | (Inr None, this') \<Rightarrow>
                (Inl (Thrown (Error
                   (''Unrecognized API version and kind: '' @ av @ '' '' @ k))),
                 spec2, this')
            | (Inr (Some r), this') \<Rightarrow>
                (let md3 = (if namespaced r \<and> \<not> truthy (namespace md) \<and> action \<noteq> List
                            then md\<lparr>namespace := Some (defaultNamespace this')\<rparr> else md);
                     spec3 = spec2\<lparr>metadata := Some md3\<rparr>;
                     parts0 = [apiVersionPath this' av];
                     parts1 = (if namespaced r \<and> truthy (namespace md3)
                               then parts0 @ [''namespaces'',
                                      encodeURIComponent
                                        (case namespace md3 of None \<Rightarrow> [] | Some n \<Rightarrow> n)]
                               else parts0);
                     parts2 = parts1 @ [resourceName r]
                 in if singleObject action then
                      (if \<not> truthy (name md3) then
                         (Inl (Thrown (Error ''Required spec property name is not set'')),
                          spec3, this')
                       else
                         (Inr (toLowerCase ev (join ''/''
                                 (parts2 @ [encodeURIComponent
                                      (case name md3 of None \<Rightarrow> [] | Some n \<Rightarrow> n)]))),
                          spec3, this'))
                    else (Inr (toLowerCase ev (join ''/'' parts2)), spec3, this')))"
proof -
  have t: "truthy (kind spec)" using assms by (simp add: truthy_def)
  have s1: "(if \<not> truthy (apiVersion spec) then spec\<lparr>apiVersion := Some ''v1''\<rparr> else spec)
      = spec\<lparr>apiVersion := Some (specApiVersion spec)\<rparr>"
    by (cases spec) (auto simp: truthy_def specApiVersion_def split: option.splits)
  have s2: "\<And>A. (if metadata (spec\<lparr>apiVersion := A\<rparr>) = None
           then spec\<lparr>apiVersion := A\<rparr>\<lparr>metadata := Some emptyMeta\<rparr>
           else spec\<lparr>apiVersion := A\<rparr>)
      = spec\<lparr>apiVersion := A, metadata := Some (specMeta spec)\<rparr>"
    by (cases spec) (auto simp: specMeta_def split: option.splits)
  show ?thesis
    unfolding specUriPath_def Let_def s1 s2
    using assms t
    by (simp add: singleObject_iff split del: if_split
        cong: if_cong prod.case_cong sum.case_cong option.case_cong del: join.simps)
qed

lemma specUriPath_resolved:
  assumes k: "kind spec = Some k" "k \<noteq> []"
    and res: "resource ev this (Some (specApiVersion spec)) (Some k) = (Inr (Some r), this')"
  shows "specUriPath ev this spec action =
     (if singleObject action \<and> \<not> truthy (name (specMeta spec))
      then Inl (Thrown (Error ''Required spec property name is not set''))
      else Inr (toLowerCase ev (join ''/'' (pathSegments this spec r action))),
      spec\<lparr>apiVersion := Some (specApiVersion spec),
           metadata := Some ((specMeta spec)\<lparr>namespace := filledNamespace this spec r action\<rparr>)\<rparr>,
      this')"
proof -
  have fr: "basePath this' = basePath this" "defaultNamespace this' = defaultNamespace this"
    using resource_frame [OF res] by simp_all
  have md3: "(if namespaced r \<and> \<not> truthy (namespace (specMeta spec)) \<and> action \<noteq> List
              then (specMeta spec)\<lparr>namespace := Some (defaultNamespace this')\<rparr> else specMeta spec)
             = (specMeta spec)\<lparr>namespace := filledNamespace this spec r action\<rparr>"
    by (simp add: filledNamespace_def fr)
  have opt: "\<And>x. truthy x \<Longrightarrow> (case x of None \<Rightarrow> [] | Some n \<Rightarrow> n) = the x"
    by (auto simp: truthy_def split: option.splits)
  show ?thesis
    unfolding specUriPath_prefix [OF k] Let_def res prod.case sum.case option.case md3
    by (simp add: pathSegments_def apiVersionPath_def fr rootSegment_def join_path_head opt
        del: join.simps)
qed

lemmas ex_defs = exEnv_def exThis_def exCachedThis_def exDeployment_def exPod_def exCoreList_def
  exAppsList_def exPodBody_def exStatusBody_def exDeserialize_def exRequest_def exOk_def
  exConflict_def exDownEnv_def exConflictEnv_def exWatcher_def exNoKind_def exNoName_def exFoo_def
  exStatusEnv_def exNoBodyEnv_def exTypeError_def exCoreResources_def

lemmas string_defs = asciiLowerCase_def lowerChar_def upperLetters_def lowerLetters_def
  asciiUpperCase_def upperChar_def encodeURIComponent_def encodeChar_def uriUnreserved_def
  hexDigit_def includes_str_def charAt0_def slice1_def firstLength_def

subsection \<open>The resolver and its cache\<close>

lemma requestPromise_sent:
  assumes "authenticate this ro = Inr q"
  shows "sent (snd (requestPromise ev this ro ty)) = sent this @ [q]"
  using assms
  by (simp add: requestPromise_def Let_def split: response.splits sum.splits)

lemma requestPromise_ok:
  assumes "authenticate this ro = Inr q" and "request ev (sent this) q = NetResponse rsp b"
    and "statusOk (statusCode rsp)"
    and "(case ty of None \<Rightarrow> bodyType ev b | Some t \<Rightarrow> Inr t) = Inr t'"
  shows "requestPromise ev this ro ty =
     (Inr (deserialize ev b t', rsp), this\<lparr>sent := sent this @ [q]\<rparr>)"
  using assms by (simp add: requestPromise_def Let_def)

lemma cacheEntry_own:
  "av \<noteq> ''__proto__'' \<Longrightarrow>
     cacheEntry (this\<lparr>apiVersionResourceCache := (apiVersionResourceCache this)(av \<mapsto> b)\<rparr>) av
       = b"
  by (simp add: cacheEntry_def)

lemma cacheEntry_sent [simp]: "cacheEntry (this\<lparr>sent := s\<rparr>) av = cacheEntry this av"
  by (simp add: cacheEntry_def)

lemma cached_sent [simp]: "cached ev (this\<lparr>sent := s\<rparr>) av k = cached ev this av k"
  by (simp add: cached_def)

lemma cached_proto: "cached ev this ''__proto__'' k = Inl (Error (typeErrorMessage ev None ''find''))"
  by (simp add: cached_def cacheEntry_def inherited_def findKind_def)

lemma cached_miss_not_proto: "cached ev this av k = Inr None \<Longrightarrow> av \<noteq> ''__proto__''"
  by (auto simp: cached_proto)

lemma cached_Value:
  "cacheEntry this av = Value l \<Longrightarrow> cached ev this av k = findKind ev (Value l) k"
  by (simp add: cached_def)

lemma resource_hit:
  assumes "cached ev this av k = Inr (Some r)"
  shows "resource ev this (Some av) (Some k) = (Inr (Some r), this)"
  using assms by (simp add: resource_def)

lemma resource_thrown:
  assumes "cached ev this av k = Inl e"
  shows "resource ev this (Some av) (Some k) = (Inl (Thrown e), this)"
  using assms by (simp add: resource_def)

lemma resource_miss:
  assumes "cached ev this av k = Inr None"
  shows "resource ev this (Some av) (Some k) =
     (case requestPromise ev this (metadataOptions this av) (Some ''V1APIResourceList'') of
        (Inr (b, rsp), this') \<Rightarrow>
          (case findKind ev b k of
             Inl e \<Rightarrow>
               (Inl (Thrown (prefixMessage
                  (''Failed to fetch resource metadata for '' @ av @ ''/'' @ k @ '': '') e)),
                this'\<lparr>apiVersionResourceCache := (apiVersionResourceCache this')(av \<mapsto> b)\<rparr>)
           | Inr r \<Rightarrow>
               (Inr r,
                this'\<lparr>apiVersionResourceCache := (apiVersionResourceCache this')(av \<mapsto> b)\<rparr>))
      | (Inl (Thrown e), this') \<Rightarrow>
          (Inl (Thrown (prefixMessage
             (''Failed to fetch resource metadata for '' @ av @ ''/'' @ k @ '': '') e)), this')
      | (Inl Pending, this') \<Rightarrow> (Inl Pending, this'))"
  using assms cached_miss_not_proto [OF assms]
  by (simp add: resource_def Let_def cacheEntry_own
      split: prod.splits sum.splits failure.splits)

lemma resource_miss_sent:
  assumes "cached ev this av k = Inr None"
    and "authenticate this (metadataOptions this av) = Inr q"
  shows "sent (snd (resource ev this (Some av) (Some k))) = sent this @ [q]"
proof -
  have "sent (snd (requestPromise ev this (metadataOptions this av) (Some ''V1APIResourceList'')))
      = sent this @ [q]"
    by (rule requestPromise_sent [OF assms(2)])
  then show ?thesis
    unfolding resource_miss [OF assms(1)]
    by (cases "requestPromise ev this (metadataOptions this av) (Some ''V1APIResourceList'')")
      (auto split: sum.splits failure.splits)
qed

lemma resource_miss_ok:
  assumes "cached ev this av k = Inr None"
    and "authenticate this (metadataOptions this av) = Inr q"
    and "request ev (sent this) q = NetResponse rsp b" and "statusOk (statusCode rsp)"
    and "deserialize ev b ''V1APIResourceList'' = Value l" and "resources l = Some rs"
  shows "resource ev this (Some av) (Some k) =
     (Inr (find (\<lambda>x. resourceKind x = k) rs),
      this\<lparr>sent := sent this @ [q],
           apiVersionResourceCache := (apiVersionResourceCache this)(av \<mapsto> Value l)\<rparr>)"
proof -
  have "requestPromise ev this (metadataOptions this av) (Some ''V1APIResourceList'')
      = (Inr (Value l, rsp), this\<lparr>sent := sent this @ [q]\<rparr>)"
    using requestPromise_ok [OF assms(2,3,4), of "Some ''V1APIResourceList''"] assms(5)
    by simp
  then show ?thesis
    unfolding resource_miss [OF assms(1)]
    by (simp add: findKind_def assms(6))
qed

lemma resource_ok_cached:
  assumes "resource ev this (Some av) (Some k) = (Inr (Some r), this')"
  shows "cached ev this' av k = Inr (Some r)"
proof (cases "cached ev this av k")
  case (Inl e)
  then show ?thesis using assms by (simp add: resource_thrown)
next
  case (Inr x)
  show ?thesis
  proof (cases x)
    case (Some r')
    then show ?thesis using assms Inr by (simp add: resource_hit)
  next
    case None
    then have m: "cached ev this av k = Inr None" using Inr by simp
    have np: "av \<noteq> ''__proto__''" by (rule cached_miss_not_proto [OF m])
    obtain x t where rp:
      "requestPromise ev this (metadataOptions this av) (Some ''V1APIResourceList'') = (x, t)"
      by (cases "requestPromise ev this (metadataOptions this av) (Some ''V1APIResourceList'')")
    from assms show ?thesis
      unfolding resource_miss [OF m] rp
      by (auto simp: cached_def cacheEntry_own [OF np] findKind_def
          split: sum.splits failure.splits prod.splits Body.splits option.splits)
  qed
qed

text \<open>
  The resolver where it works as its documentation says. When the look-up finds the kind in
  the cache, \<^verbatim>\<open>resource\<close> returns it and leaves the client as it is: nothing is sent. When the
  look-up finds nothing and does not throw, then (authentication and interceptors passing
  the request on as \<open>q\<close>) exactly one request is sent, the metadata request of the
  group-version; if it is answered with a 2xx status and a list with \<^verbatim>\<open>resources\<close>, that
  list replaces the entry of the group-version and the kind is looked up in it. A
  resolution that has returned a descriptor returns it again from the client it left,
  which it leaves unchanged.
\<close>

lemma resource_cache:
  "(cached ev this av k = Inr (Some r)
     \<longrightarrow> resource ev this (Some av) (Some k) = (Inr (Some r), this))
   \<and> (cached ev this av k = Inr None
      \<and> authenticate this (metadataOptions this av) = Inr q
     \<longrightarrow> sent (snd (resource ev this (Some av) (Some k))) = sent this @ [q]
        \<and> uri (metadataOptions this av) = join ''/'' [basePath this, rootSegment av, av]
        \<and> (request ev (sent this) q = NetResponse rsp b \<and> statusOk (statusCode rsp)
           \<and> deserialize ev b ''V1APIResourceList'' = Value l \<and> resources l = Some rs
           \<longrightarrow> resource ev this (Some av) (Some k) =
                 (Inr (find (\<lambda>x. resourceKind x = k) rs),
                  this\<lparr>sent := sent this @ [q],
                       apiVersionResourceCache :=
                         (apiVersionResourceCache this)(av \<mapsto> Value l)\<rparr>)))
   \<and> (resource ev this (Some av) (Some k) = (Inr (Some r'), this')
     \<longrightarrow> resource ev this' (Some av) (Some k) = (Inr (Some r'), this'))"
proof (intro conjI impI)
  assume "cached ev this av k = Inr (Some r)"
  then show "resource ev this (Some av) (Some k) = (Inr (Some r), this)"
    by (rule resource_hit)
next
  assume a: "cached ev this av k = Inr None
      \<and> authenticate this (metadataOptions this av) = Inr q"
  then have c: "cached ev this av k = Inr None"
    and q: "authenticate this (metadataOptions this av) = Inr q" by simp_all
  show "sent (snd (resource ev this (Some av) (Some k))) = sent this @ [q]"
    by (rule resource_miss_sent [OF c q])
  show "uri (metadataOptions this av) = join ''/'' [basePath this, rootSegment av, av]"
    by (simp add: metadataOptions_def apiVersionPath_def rootSegment_def)
  assume "request ev (sent this) q = NetResponse rsp b \<and> statusOk (statusCode rsp)
           \<and> deserialize ev b ''V1APIResourceList'' = Value l \<and> resources l = Some rs"
  then show "resource ev this (Some av) (Some k) =
                 (Inr (find (\<lambda>x. resourceKind x = k) rs),
                  this\<lparr>sent := sent this @ [q],
                       apiVersionResourceCache :=
                         (apiVersionResourceCache this)(av \<mapsto> Value l)\<rparr>)"
    using resource_miss_ok [OF c q] by simp
next
  assume "resource ev this (Some av) (Some k) = (Inr (Some r'), this')"
  then have "cached ev this' av k = Inr (Some r')" by (rule resource_ok_cached)
  then show "resource ev this' (Some av) (Some k) = (Inr (Some r'), this')"
    by (rule resource_hit)
qed

subsection \<open>The path of a resolved spec\<close>

lemma encodeURIComponent_Cons:
  "encodeURIComponent (c # s) =
     (if uriUnreserved c then [c]
      else [CHR ''%'', hexDigit ((of_char c :: nat) div 16), hexDigit (of_char c :: nat)])
     @ encodeURIComponent s"
  by (simp add: encodeURIComponent_def encodeChar_def)

text \<open>
  C1. For a spec whose kind is set and resolves to a descriptor \<open>r\<close> (and whose name is
  set when the action needs one), \<^verbatim>\<open>specUriPath\<close> returns the lower-cased join with \<^verbatim>\<open>/\<close> of,
  in this order: the base path; \<^verbatim>\<open>apis\<close> if the API version contains a \<^verbatim>\<open>/\<close>, else \<^verbatim>\<open>api\<close>;
  the API version; \<^verbatim>\<open>namespaces\<close> and the percent-encoded namespace exactly when \<open>r\<close> is
  namespaced and a namespace is set (after the default has been filled in); the plural
  name of \<open>r\<close>; and the percent-encoded name exactly when the action is read, replace,
  patch or delete. Percent-encoding keeps a character that is a letter, a digit or one of
  \<^verbatim>\<open>- _ . ! ~ * ' ( )\<close> and writes every other byte as \<^verbatim>\<open>%\<close> and its two hexadecimal digits;
  lower-casing is that of the platform.
\<close>

theorem C1_specUriPath_segments:
  assumes "kind spec = Some k" and "k \<noteq> []"
    and "fst (resource ev this (Some (specApiVersion spec)) (Some k)) = Inr (Some r)"
    and "singleObject action \<longrightarrow> truthy (name (specMeta spec))"
  shows "fst (specUriPath ev this spec action) =
     Inr (toLowerCase ev (join ''/''
       ([basePath this,
         if includes_str (specApiVersion spec) CHR ''/'' then ''apis'' else ''api'',
         specApiVersion spec]
        @ (if namespaced r \<and> truthy (filledNamespace this spec r action)
           then [''namespaces'', encodeURIComponent (the (filledNamespace this spec r action))]
           else [])
        @ [resourceName r]
        @ (if action = Read \<or> action = Replace \<or> action = Patch \<or> action = Delete
           then [encodeURIComponent (the (name (specMeta spec)))] else []))))
    \<and> encodeURIComponent [] = []
    \<and> encodeURIComponent (c # s) =
         (if c \<in> set (''ABCDEFGHIJKLMNOPQRSTUVWXYZ'' @ ''abcdefghijklmnopqrstuvwxyz''
                        @ ''0123456789'' @ ''-_.!~*'()'')
          then [c]
          else [CHR ''%'', ''0123456789ABCDEF'' ! ((of_char c :: nat) div 16 mod 16),
                ''0123456789ABCDEF'' ! ((of_char c :: nat) mod 16)])
         @ encodeURIComponent s"
proof -
  obtain this' where res:
    "resource ev this (Some (specApiVersion spec)) (Some k) = (Inr (Some r), this')"
    using assms(3) by (cases "resource ev this (Some (specApiVersion spec)) (Some k)") simp
  have "fst (specUriPath ev this spec action) =
      Inr (toLowerCase ev (join ''/'' (pathSegments this spec r action)))"
    using assms(4) by (simp add: specUriPath_resolved [OF assms(1,2) res])
  then have p: "fst (specUriPath ev this spec action) =
     Inr (toLowerCase ev (join ''/''
       ([basePath this,
         if includes_str (specApiVersion spec) CHR ''/'' then ''apis'' else ''api'',
         specApiVersion spec]
        @ (if namespaced r \<and> truthy (filledNamespace this spec r action)
           then [''namespaces'', encodeURIComponent (the (filledNamespace this spec r action))]
           else [])
        @ [resourceName r]
        @ (if action = Read \<or> action = Replace \<or> action = Patch \<or> action = Delete
           then [encodeURIComponent (the (name (specMeta spec)))] else []))))"
    by (simp add: pathSegments_def rootSegment_def singleObject_def del: join.simps)
  have e0: "encodeURIComponent [] = []" by (simp add: encodeURIComponent_def)
  have e1: "encodeURIComponent (c # s) =
         (if c \<in> set (''ABCDEFGHIJKLMNOPQRSTUVWXYZ'' @ ''abcdefghijklmnopqrstuvwxyz''
                        @ ''0123456789'' @ ''-_.!~*'()'')
          then [c]
          else [CHR ''%'', ''0123456789ABCDEF'' ! ((of_char c :: nat) div 16 mod 16),
                ''0123456789ABCDEF'' ! ((of_char c :: nat) mod 16)])
         @ encodeURIComponent s"
    unfolding encodeURIComponent_Cons uriUnreserved_def hexDigit_def upperLetters_def
      lowerLetters_def
    by (rule refl)
  from p e0 e1 show ?thesis by (intro conjI)
qed

theorem C1_specUriPath_segments_witness:
  "kind exDeployment = Some ''Deployment'' \<and> ''Deployment'' \<noteq> []
   \<and> fst (resource exEnv exCachedThis (Some (specApiVersion exDeployment)) (Some ''Deployment''))
       = Inr (Some \<lparr>resourceKind = ''Deployment'', resourceName = ''deployments'',
                     namespaced = True\<rparr>)
   \<and> truthy (name (specMeta exDeployment))
   \<and> namespace (specMeta exDeployment) = Some ''Team A''
   \<and> name (specMeta exDeployment) = Some ''Foo/Bar?''
   \<and> encodeURIComponent ''Team A'' = ''Team%20A''
   \<and> encodeURIComponent ''Foo/Bar?'' = ''Foo%2FBar%3F''
   \<and> fst (specUriPath exEnv exCachedThis exDeployment Read)
       = Inr ''http://k8s/apis/apps/v1/namespaces/team%20a/deployments/foo%2fbar%3f''"
proof -
  have h1: "kind exDeployment = Some ''Deployment''" by (simp add: exDeployment_def)
  have h2: "''Deployment'' \<noteq> []" by simp
  have c: "cached exEnv exCachedThis ''apps/v1'' ''Deployment''
      = Inr (Some \<lparr>resourceKind = ''Deployment'', resourceName = ''deployments'',
                     namespaced = True\<rparr>)"
    by (simp add: cached_def cacheEntry_def findKind_def exCachedThis_def exThis_def
        exAppsList_def)
  have av: "specApiVersion exDeployment = ''apps/v1''"
    by (simp add: specApiVersion_def exDeployment_def)
  have h3: "fst (resource exEnv exCachedThis (Some (specApiVersion exDeployment))
                  (Some ''Deployment''))
       = Inr (Some \<lparr>resourceKind = ''Deployment'', resourceName = ''deployments'',
                     namespaced = True\<rparr>)"
    by (simp add: av resource_hit [OF c])
  have h4: "truthy (name (specMeta exDeployment))"
    by (simp add: truthy_def specMeta_def exDeployment_def)
  have h5: "namespace (specMeta exDeployment) = Some ''Team A''"
    by (simp add: specMeta_def exDeployment_def)
  have h6: "name (specMeta exDeployment) = Some ''Foo/Bar?''"
    by (simp add: specMeta_def exDeployment_def)
  have h4': "singleObject Read \<longrightarrow> truthy (name (specMeta exDeployment))"
    using h4 by simp
  note t = C1_specUriPath_segments [OF h1 h2 h3 h4']
  note enc = t [THEN conjunct2, THEN conjunct1] t [THEN conjunct2, THEN conjunct2]
  have e1: "encodeURIComponent ''Team A'' = ''Team%20A''"
    by (simp add: enc)
  have e2: "encodeURIComponent ''Foo/Bar?'' = ''Foo%2FBar%3F''"
    by (simp add: enc)
  have bp: "basePath exCachedThis = ''http://k8s''"
    by (simp add: exCachedThis_def exThis_def)
  have lc: "toLowerCase exEnv = asciiLowerCase" by (simp add: exEnv_def)
  have p: "fst (specUriPath exEnv exCachedThis exDeployment Read)
       = Inr ''http://k8s/apis/apps/v1/namespaces/team%20a/deployments/foo%2fbar%3f''"
    using t [THEN conjunct1]
    by (simp add: av h5 h6 e1 e2 bp lc filledNamespace_def truthy_def includes_str_def
        asciiLowerCase_def lowerChar_def upperLetters_def lowerLetters_def)
  show ?thesis
    by (intro conjI) (fact h1 h2 h3 h4 h5 h6 e1 e2 p)+
qed

subsection \<open>Request headers\<close>

text \<open>
  C7. In the headers of a request, a key the caller supplies has the caller's value;
  otherwise \<^verbatim>\<open>accept\<close> is \<^verbatim>\<open>application/json\<close>, \<^verbatim>\<open>content-type\<close> is
  \<^verbatim>\<open>application/strategic-merge-patch+json\<close> when the action is \<^verbatim>\<open>PATCH\<close>, and every other key has
  the client's default. The patch operation builds its headers with the action \<^verbatim>\<open>PATCH\<close>,
  every other operation and the metadata fetch with \<^verbatim>\<open>GET\<close>.
\<close>

theorem C7_generateHeaders_defaults:
  "generateHeaders this optionsHeaders action k =
     (case optionsHeaders k of
        Some v \<Rightarrow> Some v
      | None \<Rightarrow>
          if k = ''content-type'' \<and> action = ''PATCH'' then Some StrategicMergePatch
          else if k = ''accept'' then Some ''application/json''
          else defaultHeaders this k)
   \<and> StrategicMergePatch = ''application/strategic-merge-patch+json''
   \<and> headers (patchOptions ev this p s pretty dryRun fieldManager force optionsHeaders)
       = generateHeaders this optionsHeaders ''PATCH''
   \<and> headers (createOptions ev this p s pretty dryRun fieldManager optionsHeaders)
       = generateHeaders this optionsHeaders ''GET''
   \<and> headers (replaceOptions ev this p s pretty dryRun fieldManager optionsHeaders)
       = generateHeaders this optionsHeaders ''GET''
   \<and> headers (deleteOptions ev this p pretty dryRun grace orphan policy deleteBody
                 optionsHeaders)
       = generateHeaders this optionsHeaders ''GET''
   \<and> headers (readOptions ev this p pretty exact exportt optionsHeaders)
       = generateHeaders this optionsHeaders ''GET''
   \<and> headers (listOptions ev this p pretty exact exportt fieldSelector labelSelector limit
                 continueToken optionsHeaders)
       = generateHeaders this optionsHeaders ''GET''
   \<and> headers (metadataOptions this av) = generateHeaders this Map.empty ''GET''"
proof -
  have "generateHeaders this optionsHeaders action k =
     (case optionsHeaders k of
        Some v \<Rightarrow> Some v
      | None \<Rightarrow>
          if k = ''content-type'' \<and> action = ''PATCH'' then Some StrategicMergePatch
          else if k = ''accept'' then Some ''application/json''
          else defaultHeaders this k)"
    by (simp add: generateHeaders_def Let_def map_add_def split: option.splits)
  then show ?thesis
    by (simp add: StrategicMergePatch_def patchOptions_def createOptions_def replaceOptions_def
        deleteOptions_def readOptions_def listOptions_def metadataOptions_def Let_def)
qed

subsection \<open>Path building, case by case\<close>

lemma specUriPath_no_kind:
  assumes "\<not> truthy (kind spec)"
  shows "specUriPath ev this spec action =
     (Inl (Thrown (Error ''Required spec property kind is not set'')), spec, this)"
  using assms by (simp add: specUriPath_def)

lemma truthy_Some: "truthy x \<Longrightarrow> \<exists>v. x = Some v \<and> v \<noteq> []"
  by (cases x) (simp_all add: truthy_def)

lemma specUriPath_unresolved:
  assumes "kind spec = Some k" "k \<noteq> []"
    and "resource ev this (Some (specApiVersion spec)) (Some k) = (Inr None, this')"
  shows "specUriPath ev this spec action =
     (Inl (Thrown (Error
        (''Unrecognized API version and kind: '' @ specApiVersion spec @ '' '' @ k))),
      spec\<lparr>apiVersion := Some (specApiVersion spec), metadata := Some (specMeta spec)\<rparr>,
      this')"
  unfolding specUriPath_prefix [OF assms(1,2)] Let_def assms(3) prod.case sum.case option.case
  by (rule refl)

lemma specUriPath_fetch_failed:
  assumes "kind spec = Some k" "k \<noteq> []"
    and "resource ev this (Some (specApiVersion spec)) (Some k) = (Inl e, this')"
  shows "specUriPath ev this spec action =
     (Inl e,
      spec\<lparr>apiVersion := Some (specApiVersion spec), metadata := Some (specMeta spec)\<rparr>,
      this')"
  unfolding specUriPath_prefix [OF assms(1,2)] Let_def assms(3) prod.case sum.case
  by (rule refl)

lemma specUriPath_Inr:
  assumes "specUriPath ev this spec action = (Inr p, spec', this')"
  shows "\<exists>k r. kind spec = Some k \<and> k \<noteq> []
     \<and> resource ev this (Some (specApiVersion spec)) (Some k) = (Inr (Some r), this')
     \<and> (singleObject action \<longrightarrow> truthy (name (specMeta spec)))"
proof -
  have t: "truthy (kind spec)"
  proof (rule ccontr)
    assume "\<not> truthy (kind spec)"
    then have "fst (specUriPath ev this spec action)
        = Inl (Thrown (Error ''Required spec property kind is not set''))"
      by (simp add: specUriPath_no_kind)
    with assms show False by simp
  qed
  then obtain k where k: "kind spec = Some k" "k \<noteq> []"
    using truthy_Some by blast
  obtain x this'' where x: "resource ev this (Some (specApiVersion spec)) (Some k) = (x, this'')"
    by (cases "resource ev this (Some (specApiVersion spec)) (Some k)")
  show ?thesis
  proof (cases x)
    case (Inl e)
    then show ?thesis
      using assms specUriPath_fetch_failed [OF k, of ev this e this'' action] x by simp
  next
    case (Inr ro)
    show ?thesis
    proof (cases ro)
      case None
      then show ?thesis
        using assms specUriPath_unresolved [OF k, of ev this this'' action] x Inr by simp
    next
      case (Some r)
      then have res: "resource ev this (Some (specApiVersion spec)) (Some k) = (Inr (Some r), this'')"
        using x Inr by simp
      from assms specUriPath_resolved [OF k res, of action]
      have "this'' = this'" and "\<not> (singleObject action \<and> \<not> truthy (name (specMeta spec)))"
        by (auto split: if_splits)
      with k res show ?thesis by blast
    qed
  qed
qed

lemma resource_sent:
  "sent (snd (resource ev this (Some av) (Some k))) = sent this
   \<or> (\<exists>q. authenticate this (metadataOptions this av) = Inr q
         \<and> sent (snd (resource ev this (Some av) (Some k))) = sent this @ [q])"
proof (cases "cached ev this av k")
  case (Inl e)
  then show ?thesis by (simp add: resource_thrown)
next
  case (Inr x)
  show ?thesis
  proof (cases x)
    case (Some r)
    then show ?thesis using Inr by (simp add: resource_hit)
  next
    case None
    then have m: "cached ev this av k = Inr None" using Inr by simp
    show ?thesis
    proof (cases "authenticate this (metadataOptions this av)")
      case (Inl e)
      then show ?thesis
        unfolding resource_miss [OF m] by (simp add: requestPromise_def)
    next
      case (Inr q)
      then show ?thesis
        using resource_miss_sent [OF m Inr] by simp
    qed
  qed
qed

lemma specUriPath_this:
  "snd (snd (specUriPath ev this spec action)) =
     (if truthy (kind spec)
      then snd (resource ev this (Some (specApiVersion spec)) (kind spec)) else this)"
proof (cases "truthy (kind spec)")
  case False
  then show ?thesis by (simp add: specUriPath_no_kind)
next
  case True
  then obtain k where k: "kind spec = Some k" "k \<noteq> []"
    using truthy_Some by blast
  obtain x this'' where x: "resource ev this (Some (specApiVersion spec)) (Some k) = (x, this'')"
    by (cases "resource ev this (Some (specApiVersion spec)) (Some k)")
  show ?thesis
  proof (cases x)
    case (Inl e)
    then show ?thesis
      using True k specUriPath_fetch_failed [OF k, of ev this e this'' action] x by simp
  next
    case (Inr ro)
    show ?thesis
    proof (cases ro)
      case None
      then show ?thesis
        using True k specUriPath_unresolved [OF k, of ev this this'' action] x Inr by simp
    next
      case (Some r)
      then show ?thesis
        using True k specUriPath_resolved [OF k, of ev this r this'' action] x Inr by simp
    qed
  qed
qed

lemma specUriPath_sent:
  "sent (snd (snd (specUriPath ev this spec action))) = sent this
   \<or> (\<exists>q. authenticate this (metadataOptions this (specApiVersion spec)) = Inr q
         \<and> sent (snd (snd (specUriPath ev this spec action))) = sent this @ [q])"
proof (cases "truthy (kind spec)")
  case False
  then show ?thesis by (simp add: specUriPath_this)
next
  case True
  then obtain k where k: "kind spec = Some k" "k \<noteq> []"
    using truthy_Some by blast
  show ?thesis
    using resource_sent [of ev this "specApiVersion spec" k] True k
    by (simp add: specUriPath_this)
qed

subsection \<open>Defaults of path building\<close>

text \<open>
  C4. For a spec whose kind is set and resolves to a descriptor \<open>r\<close> (its name set when the
  action needs one): when its API version is not set, path building does not fail, the API
  version it uses and leaves in the spec is \<^verbatim>\<open>v1\<close>, and the path starts with the base path,
  \<^verbatim>\<open>api\<close> and \<^verbatim>\<open>v1\<close>; when \<open>r\<close> is namespaced, the action is not list and no namespace is set,
  the namespace is filled with the client's default namespace; when the action is list,
  the path ends with the plural name, whatever the name of the spec, and the namespace is
  left as it was.
\<close>

theorem C4_specUriPath_defaults:
  assumes "kind spec = Some k" and "k \<noteq> []"
    and "fst (resource ev this (Some (specApiVersion spec)) (Some k)) = Inr (Some r)"
    and "singleObject action \<longrightarrow> truthy (name (specMeta spec))"
  shows "(\<not> truthy (apiVersion spec) \<longrightarrow>
            specApiVersion spec = ''v1''
          \<and> apiVersion (fst (snd (specUriPath ev this spec action))) = Some ''v1''
          \<and> fst (specUriPath ev this spec action)
              = Inr (toLowerCase ev (join ''/'' (pathSegments this spec r action)))
          \<and> take 3 (pathSegments this spec r action) = [basePath this, ''api'', ''v1''])
    \<and> (namespaced r \<and> action \<noteq> List \<and> \<not> truthy (namespace (specMeta spec)) \<longrightarrow>
            map_option namespace (metadata (fst (snd (specUriPath ev this spec action))))
              = Some (Some (defaultNamespace this))
          \<and> filledNamespace this spec r action = Some (defaultNamespace this))
    \<and> (action = List \<longrightarrow>
            fst (specUriPath ev this spec action)
              = Inr (toLowerCase ev (join ''/''
                  ([basePath this, rootSegment (specApiVersion spec), specApiVersion spec]
                   @ (if namespaced r \<and> truthy (namespace (specMeta spec))
                      then [''namespaces'',
                            encodeURIComponent (the (namespace (specMeta spec)))]
                      else [])
                   @ [resourceName r])))
          \<and> map_option namespace (metadata (fst (snd (specUriPath ev this spec action))))
              = Some (namespace (specMeta spec)))"
proof -
  obtain this' where res:
    "resource ev this (Some (specApiVersion spec)) (Some k) = (Inr (Some r), this')"
    using assms(3) by (cases "resource ev this (Some (specApiVersion spec)) (Some k)") simp
  note eq = specUriPath_resolved [OF assms(1,2) res, of action]
  have ok: "fst (specUriPath ev this spec action)
      = Inr (toLowerCase ev (join ''/'' (pathSegments this spec r action)))"
    using assms(4) by (simp add: eq)
  have sp: "fst (snd (specUriPath ev this spec action))
      = spec\<lparr>apiVersion := Some (specApiVersion spec),
             metadata := Some ((specMeta spec)\<lparr>namespace := filledNamespace this spec r action\<rparr>)\<rparr>"
    by (simp add: eq)
  have a: "\<not> truthy (apiVersion spec) \<Longrightarrow> specApiVersion spec = ''v1''"
    by (auto simp: truthy_def specApiVersion_def split: option.splits)
  have c: "action = List \<Longrightarrow> pathSegments this spec r action =
      [basePath this, rootSegment (specApiVersion spec), specApiVersion spec]
       @ (if namespaced r \<and> truthy (namespace (specMeta spec))
          then [''namespaces'', encodeURIComponent (the (namespace (specMeta spec)))]
          else [])
       @ [resourceName r]"
    by (simp add: pathSegments_def filledNamespace_def singleObject_def)
  show ?thesis
  proof (intro conjI impI)
    assume n: "\<not> truthy (apiVersion spec)"
    show "specApiVersion spec = ''v1''" by (rule a [OF n])
    show "apiVersion (fst (snd (specUriPath ev this spec action))) = Some ''v1''"
      by (simp add: sp a [OF n])
    show "fst (specUriPath ev this spec action)
              = Inr (toLowerCase ev (join ''/'' (pathSegments this spec r action)))"
      by (rule ok)
    show "take 3 (pathSegments this spec r action) = [basePath this, ''api'', ''v1'']"
      by (simp add: pathSegments_def a [OF n] rootSegment_def includes_str_def)
  next
    assume "namespaced r \<and> action \<noteq> List \<and> \<not> truthy (namespace (specMeta spec))"
    then show f: "filledNamespace this spec r action = Some (defaultNamespace this)"
      by (simp add: filledNamespace_def)
    show "map_option namespace (metadata (fst (snd (specUriPath ev this spec action))))
              = Some (Some (defaultNamespace this))"
      by (simp add: sp f)
  next
    assume l: "action = List"
    show "fst (specUriPath ev this spec action)
              = Inr (toLowerCase ev (join ''/''
                  ([basePath this, rootSegment (specApiVersion spec), specApiVersion spec]
                   @ (if namespaced r \<and> truthy (namespace (specMeta spec))
                      then [''namespaces'',
                            encodeURIComponent (the (namespace (specMeta spec)))]
                      else [])
                   @ [resourceName r])))"
      using ok c [OF l] by simp
    show "map_option namespace (metadata (fst (snd (specUriPath ev this spec action))))
              = Some (namespace (specMeta spec))"
      unfolding sp by (simp add: filledNamespace_def l)
  qed
qed


theorem C4_specUriPath_defaults_witness:
  "kind exPod = Some ''Pod'' \<and> ''Pod'' \<noteq> []
   \<and> fst (resource exEnv exCachedThis (Some (specApiVersion exPod)) (Some ''Pod''))
       = Inr (Some \<lparr>resourceKind = ''Pod'', resourceName = ''pods'', namespaced = True\<rparr>)
   \<and> truthy (name (specMeta exPod))
   \<and> \<not> truthy (apiVersion exPod) \<and> \<not> truthy (namespace (specMeta exPod))
   \<and> apiVersion (fst (snd (specUriPath exEnv exCachedThis exPod Read))) = Some ''v1''
   \<and> fst (specUriPath exEnv exCachedThis exPod Read)
       = Inr ''http://k8s/api/v1/namespaces/default/pods/foo''
   \<and> map_option namespace (metadata (fst (snd (specUriPath exEnv exCachedThis exPod Read))))
       = Some (Some ''default'')
   \<and> name (specMeta exPod) = Some ''Foo''
   \<and> fst (specUriPath exEnv exCachedThis exPod List) = Inr ''http://k8s/api/v1/pods''
   \<and> map_option namespace (metadata (fst (snd (specUriPath exEnv exCachedThis exPod List))))
       = Some None"
proof -
  let ?pod = "\<lparr>resourceKind = ''Pod'', resourceName = ''pods'', namespaced = True\<rparr>"
  have h1: "kind exPod = Some ''Pod''" by (simp add: exPod_def)
  have h2: "''Pod'' \<noteq> []" by simp
  have c: "cached exEnv exCachedThis ''v1'' ''Pod'' = Inr (Some ?pod)"
    by (simp add: cached_def cacheEntry_def findKind_def exCachedThis_def exThis_def
        exCoreList_def exCoreResources_def)
  have h3: "fst (resource exEnv exCachedThis (Some (specApiVersion exPod)) (Some ''Pod''))
       = Inr (Some ?pod)"
    by (simp add: specApiVersion_def exPod_def resource_hit [OF c])
  have h4: "truthy (name (specMeta exPod))"
    by (simp add: truthy_def specMeta_def exPod_def)
  have h5: "\<not> truthy (apiVersion exPod)" by (simp add: truthy_def exPod_def)
  have h6: "\<not> truthy (namespace (specMeta exPod))"
    by (simp add: truthy_def specMeta_def exPod_def)
  have h7: "name (specMeta exPod) = Some ''Foo''" by (simp add: specMeta_def exPod_def)
  have dn: "defaultNamespace exCachedThis = ''default''"
    by (simp add: exCachedThis_def exThis_def)
  have bp: "basePath exCachedThis = ''http://k8s''"
    by (simp add: exCachedThis_def exThis_def)
  have av: "specApiVersion exPod = ''v1''" by (simp add: specApiVersion_def exPod_def)
  have lc: "toLowerCase exEnv = asciiLowerCase" by (simp add: exEnv_def)
  have ns: "namespace (specMeta exPod) = None" by (simp add: specMeta_def exPod_def)
  note rd = C4_specUriPath_defaults [OF h1 h2 h3, of Read]
  note ls = C4_specUriPath_defaults [OF h1 h2 h3, of List]
  have r1: "apiVersion (fst (snd (specUriPath exEnv exCachedThis exPod Read))) = Some ''v1''"
    using rd h4 h5 by simp
  have r2: "fst (specUriPath exEnv exCachedThis exPod Read)
       = Inr ''http://k8s/api/v1/namespaces/default/pods/foo''"
    using rd h4 h5
    by (simp add: pathSegments_def filledNamespace_def singleObject_def rootSegment_def
        dn bp av ns h7 lc truthy_def string_defs)
  have r3: "map_option namespace
              (metadata (fst (snd (specUriPath exEnv exCachedThis exPod Read))))
       = Some (Some ''default'')"
    using rd h4 h6 by (simp add: dn)
  have l1: "fst (specUriPath exEnv exCachedThis exPod List) = Inr ''http://k8s/api/v1/pods''"
    using ls
    by (simp add: singleObject_def rootSegment_def bp av ns lc truthy_def string_defs)
  have l2: "map_option namespace
              (metadata (fst (snd (specUriPath exEnv exCachedThis exPod List)))) = Some None"
    using ls by (simp add: singleObject_def ns)
  show ?thesis
    by (intro conjI) (fact h1 h2 h3 h4 h5 h6 h7 r1 r2 r3 l1 l2)+
qed

subsection \<open>Operations whose path building fails\<close>

lemma create_path_failed:
  assumes "fst (specUriPath ev this s Create) = Inl e"
  shows "create ev this (Some s) pretty dryRun fieldManager oh =
     (Inl e, Some (fst (snd (specUriPath ev this s Create))),
      snd (snd (specUriPath ev this s Create)))"
  using assms by (cases "specUriPath ev this s Create") (simp add: create_def)

lemma delete_path_failed:
  assumes "fst (specUriPath ev this s Delete) = Inl e"
  shows "delete ev this (Some s) pretty dryRun grace orphan policy deleteBody oh =
     (Inl e, Some (fst (snd (specUriPath ev this s Delete))),
      snd (snd (specUriPath ev this s Delete)))"
  using assms by (cases "specUriPath ev this s Delete") (simp add: delete_def)

lemma patch_path_failed:
  assumes "fst (specUriPath ev this s Patch) = Inl e"
  shows "patch ev this (Some s) pretty dryRun fieldManager force oh =
     (Inl e, Some (fst (snd (specUriPath ev this s Patch))),
      snd (snd (specUriPath ev this s Patch)))"
  using assms by (cases "specUriPath ev this s Patch") (simp add: patch_def)

lemma replace_path_failed:
  assumes "fst (specUriPath ev this s Replace) = Inl e"
  shows "replace ev this (Some s) pretty dryRun fieldManager oh =
     (Inl e, Some (fst (snd (specUriPath ev this s Replace))),
      snd (snd (specUriPath ev this s Replace)))"
  using assms by (cases "specUriPath ev this s Replace") (simp add: replace_def)

lemma read_path_failed:
  assumes "kind s \<noteq> None" and "truthy (apiVersion s)"
    and "fst (specUriPath ev this s Read) = Inl e"
  shows "read ev this (Some s) pretty exact exportt oh =
     (Inl e, Some (fst (snd (specUriPath ev this s Read))),
      snd (snd (specUriPath ev this s Read)))"
proof -
  from assms(1) obtain kk where "kind s = Some kk" by auto
  then show ?thesis
    using assms(2,3) by (cases "specUriPath ev this s Read") (simp add: read_def)
qed

lemma list_path_failed:
  assumes "fst (specUriPath ev this (listSpec av k ns) List) = Inl e"
  shows "list ev this (Some av) (Some k) ns pretty exact exportt fieldSelector labelSelector
           limit continueToken oh =
     (Inl e, snd (snd (specUriPath ev this (listSpec av k ns) List)))"
  using assms by (cases "specUriPath ev this (listSpec av k ns) List") (simp add: list_def)

lemma watch_path_failed:
  assumes "watcher this = Some w"
    and "fst (specUriPath ev this (listSpec av k ns) List) = Inl e"
  shows "watch ev this av k ns options =
     (Inl e, snd (snd (specUriPath ev this (listSpec av k ns) List)))"
  using assms by (cases "specUriPath ev this (listSpec av k ns) List") (simp add: watch_def)

subsection \<open>The example client\<close>

lemma exThis_authenticate: "authenticate exThis ro = Inr ro"
  by (simp add: authenticate_def exThis_def truthy_def bindE_def Let_def)

lemma exCachedThis_authenticate: "authenticate exCachedThis ro = Inr ro"
  by (simp add: authenticate_def exCachedThis_def exThis_def truthy_def bindE_def Let_def)

lemma exCached_pod:
  "resource ev exCachedThis (Some ''v1'') (Some ''Pod'')
     = (Inr (Some \<lparr>resourceKind = ''Pod'', resourceName = ''pods'', namespaced = True\<rparr>),
        exCachedThis)"
  by (rule resource_hit)
    (simp add: cached_def cacheEntry_def findKind_def exCachedThis_def exThis_def
      exCoreList_def exCoreResources_def)

lemma exThis_cached: "cached ev exThis ''v1'' k = Inr None"
  by (simp add: cached_def cacheEntry_def exThis_def objectPrototypeKeys_def)

lemma exThis_discovery:
  "resource exEnv exThis (Some ''v1'') (Some k)
     = (Inr (find (\<lambda>x. resourceKind x = k) exCoreResources),
        exThis\<lparr>sent := [metadataOptions exThis ''v1''],
               apiVersionResourceCache :=
                 [''v1'' \<mapsto> exDeserialize exCoreList ''V1APIResourceList'']\<rparr>)"
proof -
  let ?l = "\<lparr>bodyApiVersion = Some (JStr ''v1''), bodyKind = Some (JStr ''APIResourceList''),
      resources = Some exCoreResources,
      bodyRest = [(''decodedAs'', JStr ''V1APIResourceList'')]\<rparr>"
  have r: "request exEnv (sent exThis) (metadataOptions exThis ''v1'') = NetResponse exOk exCoreList"
    by (simp add: exEnv_def exRequest_def metadataOptions_def apiVersionPath_def exThis_def
        includes_str_def)
  have s: "statusOk (statusCode exOk)" by (simp add: statusOk_def exOk_def)
  have d: "exDeserialize exCoreList ''V1APIResourceList'' = Value ?l"
    by (simp add: exDeserialize_def exCoreList_def)
  have d': "deserialize exEnv exCoreList ''V1APIResourceList'' = Value ?l"
    by (simp add: exEnv_def d)
  have rs: "resources ?l = Some exCoreResources" by simp
  have s0: "sent exThis = []" by (simp add: exThis_def)
  have c0: "apiVersionResourceCache exThis = Map.empty" by (simp add: exThis_def)
  show ?thesis
    using resource_miss_ok [OF exThis_cached exThis_authenticate r s d' rs, of k]
    by (simp only: d s0 c0 append_Nil)
qed

subsection \<open>The resolver on inherited keys and on lists without resources\<close>

lemma exStatus_request: "request exStatusEnv hist q = NetResponse exOk exStatusBody"
  by (simp add: exStatusEnv_def exEnv_def)

lemma exThis_constructor:
  "cached exEnv exThis ''constructor'' k
     = Inl (Error ''Cannot read properties of undefined (reading find)'')"
  by (simp add: cached_def cacheEntry_def exThis_def objectPrototypeKeys_def inherited_def
      findKind_def exEnv_def exTypeError_def)

lemma exStatus_discovery:
  "resource exStatusEnv exThis (Some ''v1'') (Some ''Pod'')
     = (Inl (Thrown (Error (''Failed to fetch resource metadata for v1/Pod: ''
               @ ''Cannot read properties of undefined (reading find)''))),
        exThis\<lparr>sent := [metadataOptions exThis ''v1''],
               apiVersionResourceCache :=
                 [''v1'' \<mapsto> exDeserialize exStatusBody ''V1APIResourceList'']\<rparr>)"
proof -
  let ?b = "exDeserialize exStatusBody ''V1APIResourceList''"
  have s: "statusOk (statusCode exOk)" by (simp add: statusOk_def exOk_def)
  have t: "(case Some ''V1APIResourceList'' of None \<Rightarrow> bodyType exStatusEnv exStatusBody
            | Some t \<Rightarrow> Inr t) = Inr ''V1APIResourceList''"
    by simp
  have d: "deserialize exStatusEnv = exDeserialize" by (simp add: exStatusEnv_def exEnv_def)
  have s0: "sent exThis = []" by (simp add: exThis_def)
  have c0: "apiVersionResourceCache exThis = Map.empty" by (simp add: exThis_def)
  have rp: "requestPromise exStatusEnv exThis (metadataOptions exThis ''v1'')
              (Some ''V1APIResourceList'')
      = (Inr (?b, exOk), exThis\<lparr>sent := [metadataOptions exThis ''v1'']\<rparr>)"
    using requestPromise_ok [OF exThis_authenticate exStatus_request s t]
    by (simp add: d s0)
  have f: "findKind exStatusEnv ?b ''Pod''
      = Inl (Error ''Cannot read properties of undefined (reading find)'')"
    by (simp add: findKind_def exDeserialize_def exStatusBody_def exStatusEnv_def exEnv_def
        exTypeError_def)
  show ?thesis
    unfolding resource_miss [OF exThis_cached] rp prod.case sum.case f
    by (simp add: c0)
qed

lemma exStatus_poisoned:
  "resource exStatusEnv
     (exThis\<lparr>sent := [metadataOptions exThis ''v1''],
            apiVersionResourceCache :=
              [''v1'' \<mapsto> exDeserialize exStatusBody ''V1APIResourceList'']\<rparr>)
     (Some ''v1'') (Some ''Pod'')
     = (Inl (Thrown (Error ''Cannot read properties of undefined (reading find)'')),
        exThis\<lparr>sent := [metadataOptions exThis ''v1''],
               apiVersionResourceCache :=
                 [''v1'' \<mapsto> exDeserialize exStatusBody ''V1APIResourceList'']\<rparr>)"
  by (rule resource_thrown)
    (simp add: cached_def cacheEntry_def findKind_def exDeserialize_def exStatusBody_def
      exStatusEnv_def exEnv_def exTypeError_def)

text \<open>
  C2 does not hold of \<^verbatim>\<open>resource\<close>, whose documentation says what the claim says: a kind that
  is not found gives \<^verbatim>\<open>undefined\<close>, and a kind not found in the cached list is fetched again.
  The cache is a plain object and the search calls \<^verbatim>\<open>find\<close> on \<^verbatim>\<open>resources\<close> unguarded. On a
  client whose cache is empty, resolving the group-version \<^verbatim>\<open>constructor\<close> finds the property
  the cache object inherits, throws a \<^verbatim>\<open>TypeError\<close> and sends nothing, where a miss is to
  fetch once. When the metadata request of \<^verbatim>\<open>v1\<close> is answered with status 200 and a body that
  has no \<^verbatim>\<open>resources\<close>, the first resolution sends the request, stores the body and throws a
  \<^verbatim>\<open>TypeError\<close> instead of reporting the kind as not found; the second resolution throws
  again and sends nothing, where a kind not found in the cached list is to be fetched
  again.
\<close>

theorem C2_resource_type_errors:
  "apiVersionResourceCache exThis ''constructor'' = None
   \<and> resource exEnv exThis (Some ''constructor'') (Some ''Pod'')
       = (Inl (Thrown (Error ''Cannot read properties of undefined (reading find)'')), exThis)
   \<and> sent exThis = []
   \<and> request exStatusEnv [] (metadataOptions exThis ''v1'') = NetResponse exOk exStatusBody
   \<and> statusCode exOk = Some 200
   \<and> resource exStatusEnv exThis (Some ''v1'') (Some ''Pod'')
       = (Inl (Thrown (Error (''Failed to fetch resource metadata for v1/Pod: ''
                 @ ''Cannot read properties of undefined (reading find)''))),
          exThis\<lparr>sent := [metadataOptions exThis ''v1''],
                 apiVersionResourceCache :=
                   [''v1'' \<mapsto> exDeserialize exStatusBody ''V1APIResourceList'']\<rparr>)
   \<and> resource exStatusEnv
        (exThis\<lparr>sent := [metadataOptions exThis ''v1''],
               apiVersionResourceCache :=
                 [''v1'' \<mapsto> exDeserialize exStatusBody ''V1APIResourceList'']\<rparr>)
        (Some ''v1'') (Some ''Pod'')
       = (Inl (Thrown (Error ''Cannot read properties of undefined (reading find)'')),
          exThis\<lparr>sent := [metadataOptions exThis ''v1''],
                 apiVersionResourceCache :=
                   [''v1'' \<mapsto> exDeserialize exStatusBody ''V1APIResourceList'']\<rparr>)"
proof -
  have a: "apiVersionResourceCache exThis ''constructor'' = None" "sent exThis = []"
    "statusCode exOk = Some 200"
    by (simp_all add: exThis_def exOk_def)
  have b: "resource exEnv exThis (Some ''constructor'') (Some ''Pod'')
       = (Inl (Thrown (Error ''Cannot read properties of undefined (reading find)'')), exThis)"
    by (rule resource_thrown [OF exThis_constructor])
  show ?thesis
    by (intro conjI) (fact a b exStatus_request exStatus_discovery exStatus_poisoned)+
qed

subsection \<open>Errors of path building\<close>

text \<open>
  C5. Path building fails with the error \<^verbatim>\<open>Required spec property kind is not set\<close> when the
  kind is not set, leaving spec and client as they are; for a spec whose kind resolves, with
  \<^verbatim>\<open>Required spec property name is not set\<close> when the action is read, replace, patch or
  delete and the name is not set; and with \<^verbatim>\<open>Unrecognized API version and kind\<close> (followed
  by the two) when the resolver finds no descriptor. These are the errors the specification
  calls \<^verbatim>\<open>InvalidSpec\<close> and \<^verbatim>\<open>UnknownResource\<close>; the client throws them as plain errors with
  these messages. Path building sends nothing but, at most, the one metadata request of the
  resolver; and an operation whose path building fails ends with that error and leaves the
  client as path building left it: no request of the operation itself has been sent.
\<close>

theorem C5_path_errors_before_request:
  "(\<not> truthy (kind spec) \<longrightarrow>
       specUriPath ev this spec action =
         (Inl (Thrown (Error ''Required spec property kind is not set'')), spec, this))
   \<and> (kind spec = Some k \<and> k \<noteq> []
       \<and> fst (resource ev this (Some (specApiVersion spec)) (Some k)) = Inr (Some r)
       \<and> singleObject action \<and> \<not> truthy (name (specMeta spec)) \<longrightarrow>
       fst (specUriPath ev this spec action) =
         Inl (Thrown (Error ''Required spec property name is not set'')))
   \<and> (kind spec = Some k \<and> k \<noteq> []
       \<and> fst (resource ev this (Some (specApiVersion spec)) (Some k)) = Inr None \<longrightarrow>
       fst (specUriPath ev this spec action) =
         Inl (Thrown (Error
           (''Unrecognized API version and kind: '' @ specApiVersion spec @ '' '' @ k))))
   \<and> (sent (snd (snd (specUriPath ev this spec action))) = sent this
       \<or> (\<exists>q. authenticate this (metadataOptions this (specApiVersion spec)) = Inr q
             \<and> sent (snd (snd (specUriPath ev this spec action))) = sent this @ [q]))
   \<and> (fst (specUriPath ev this spec Create) = Inl e \<longrightarrow>
       create ev this (Some spec) pretty dryRun fieldManager oh =
         (Inl e, Some (fst (snd (specUriPath ev this spec Create))),
          snd (snd (specUriPath ev this spec Create))))
   \<and> (fst (specUriPath ev this spec Delete) = Inl e \<longrightarrow>
       delete ev this (Some spec) pretty dryRun grace orphan policy deleteBody oh =
         (Inl e, Some (fst (snd (specUriPath ev this spec Delete))),
          snd (snd (specUriPath ev this spec Delete))))
   \<and> (fst (specUriPath ev this spec Patch) = Inl e \<longrightarrow>
       patch ev this (Some spec) pretty dryRun fieldManager force oh =
         (Inl e, Some (fst (snd (specUriPath ev this spec Patch))),
          snd (snd (specUriPath ev this spec Patch))))
   \<and> (fst (specUriPath ev this spec Replace) = Inl e \<longrightarrow>
       replace ev this (Some spec) pretty dryRun fieldManager oh =
         (Inl e, Some (fst (snd (specUriPath ev this spec Replace))),
          snd (snd (specUriPath ev this spec Replace))))
   \<and> (kind spec \<noteq> None \<and> truthy (apiVersion spec)
       \<and> fst (specUriPath ev this spec Read) = Inl e \<longrightarrow>
       read ev this (Some spec) pretty exact exportt oh =
         (Inl e, Some (fst (snd (specUriPath ev this spec Read))),
          snd (snd (specUriPath ev this spec Read))))
   \<and> (fst (specUriPath ev this (listSpec av kd ns) List) = Inl e \<longrightarrow>
       list ev this (Some av) (Some kd) ns pretty exact exportt fieldSelector labelSelector
           limit continueToken oh =
         (Inl e, snd (snd (specUriPath ev this (listSpec av kd ns) List))))
   \<and> (watcher this = Some w
       \<and> fst (specUriPath ev this (listSpec av kd ns) List) = Inl e \<longrightarrow>
       watch ev this av kd ns options =
         (Inl e, snd (snd (specUriPath ev this (listSpec av kd ns) List))))"
proof -
  have nm: "fst (specUriPath ev this spec action) =
         Inl (Thrown (Error ''Required spec property name is not set''))"
    if a: "kind spec = Some k \<and> k \<noteq> []
       \<and> fst (resource ev this (Some (specApiVersion spec)) (Some k)) = Inr (Some r)
       \<and> singleObject action \<and> \<not> truthy (name (specMeta spec))"
  proof -
    from a obtain this' where res:
      "resource ev this (Some (specApiVersion spec)) (Some k) = (Inr (Some r), this')"
      by (cases "resource ev this (Some (specApiVersion spec)) (Some k)") simp
    from a have k: "kind spec = Some k" "k \<noteq> []" by simp_all
    show ?thesis
      using a by (simp add: specUriPath_resolved [OF k res])
  qed
  have un: "fst (specUriPath ev this spec action) =
         Inl (Thrown (Error
           (''Unrecognized API version and kind: '' @ specApiVersion spec @ '' '' @ k)))"
    if a: "kind spec = Some k \<and> k \<noteq> []
       \<and> fst (resource ev this (Some (specApiVersion spec)) (Some k)) = Inr None"
  proof -
    from a obtain this' where res:
      "resource ev this (Some (specApiVersion spec)) (Some k) = (Inr None, this')"
      by (cases "resource ev this (Some (specApiVersion spec)) (Some k)") simp
    from a have k: "kind spec = Some k" "k \<noteq> []" by simp_all
    show ?thesis
      by (simp only: specUriPath_unresolved [OF k res] fst_conv)
  qed
  show ?thesis
    apply (intro conjI impI)
              apply (erule specUriPath_no_kind)
             apply (erule nm)
            apply (erule un)
           apply (rule specUriPath_sent)
          apply (erule create_path_failed)
         apply (erule delete_path_failed)
        apply (erule patch_path_failed)
       apply (erule replace_path_failed)
      apply (elim conjE, erule (2) read_path_failed)
     apply (erule list_path_failed)
    apply (erule conjE, erule (1) watch_path_failed)
    done
qed


theorem C5_path_errors_before_request_witness:
  "\<not> truthy (kind exNoKind)
   \<and> specUriPath exEnv exThis exNoKind Create
       = (Inl (Thrown (Error ''Required spec property kind is not set'')), exNoKind, exThis)
   \<and> create exEnv exThis (Some exNoKind) None None None Map.empty
       = (Inl (Thrown (Error ''Required spec property kind is not set'')), Some exNoKind,
          exThis)
   \<and> sent exThis = []
   \<and> fst (specUriPath exEnv exCachedThis exNoName Delete)
       = Inl (Thrown (Error ''Required spec property name is not set''))
   \<and> fst (delete exEnv exCachedThis (Some exNoName) None None None None None None Map.empty)
       = Inl (Thrown (Error ''Required spec property name is not set''))
   \<and> sent (snd (snd (delete exEnv exCachedThis (Some exNoName) None None None None None None
                         Map.empty))) = []
   \<and> fst (specUriPath exEnv exThis exFoo Read)
       = Inl (Thrown (Error ''Unrecognized API version and kind: v1 Foo''))
   \<and> fst (read exEnv exThis (Some exFoo) None None None Map.empty)
       = Inl (Thrown (Error ''Unrecognized API version and kind: v1 Foo''))
   \<and> sent (snd (snd (read exEnv exThis (Some exFoo) None None None Map.empty)))
       = [metadataOptions exThis ''v1'']"
proof -
  let ?pod = "\<lparr>resourceKind = ''Pod'', resourceName = ''pods'', namespaced = True\<rparr>"
  let ?kindmsg = "Thrown (Error ''Required spec property kind is not set'')"
  let ?namemsg = "Thrown (Error ''Required spec property name is not set'')"
  let ?unknown = "Thrown (Error ''Unrecognized API version and kind: v1 Foo'')"
  have s0: "sent exThis = []" by (simp add: exThis_def)
  have s1: "sent exCachedThis = []" by (simp add: exCachedThis_def exThis_def)
  \<comment> \<open>the kind is not set\<close>
  have a1: "\<not> truthy (kind exNoKind)" by (simp add: truthy_def exNoKind_def)
  have a2: "specUriPath exEnv exThis exNoKind Create = (Inl ?kindmsg, exNoKind, exThis)"
    by (rule C5_path_errors_before_request [where spec = exNoKind and this = exThis
          and ev = exEnv and action = Create, THEN conjunct1, THEN mp, OF a1])
  have a3: "create exEnv exThis (Some exNoKind) None None None Map.empty
       = (Inl ?kindmsg, Some exNoKind, exThis)"
    using C5_path_errors_before_request [where spec = exNoKind and this = exThis
          and ev = exEnv and e = ?kindmsg and pretty = None and dryRun = None
          and fieldManager = None and oh = Map.empty,
          THEN conjunct2, THEN conjunct2, THEN conjunct2, THEN conjunct2, THEN conjunct1]
    by (simp add: a2)
  \<comment> \<open>the name is not set\<close>
  have b0: "kind exNoName = Some ''Pod'' \<and> ''Pod'' \<noteq> []
       \<and> fst (resource exEnv exCachedThis (Some (specApiVersion exNoName)) (Some ''Pod''))
           = Inr (Some ?pod)
       \<and> singleObject Delete \<and> \<not> truthy (name (specMeta exNoName))"
    by (simp add: exNoName_def exPod_def specApiVersion_def exCached_pod singleObject_def
        specMeta_def truthy_def)
  have b1: "fst (specUriPath exEnv exCachedThis exNoName Delete) = Inl ?namemsg"
    by (rule C5_path_errors_before_request [where spec = exNoName and this = exCachedThis
          and ev = exEnv and action = Delete and k = "''Pod''" and r = ?pod,
          THEN conjunct2, THEN conjunct1, THEN mp, OF b0])
  have b2: "snd (snd (specUriPath exEnv exCachedThis exNoName Delete)) = exCachedThis"
    by (simp add: specUriPath_this exNoName_def exPod_def specApiVersion_def exCached_pod
        truthy_def)
  have b3: "delete exEnv exCachedThis (Some exNoName) None None None None None None Map.empty
       = (Inl ?namemsg, Some (fst (snd (specUriPath exEnv exCachedThis exNoName Delete))),
          snd (snd (specUriPath exEnv exCachedThis exNoName Delete)))"
    by (rule C5_path_errors_before_request [where spec = exNoName and this = exCachedThis
          and ev = exEnv and e = ?namemsg,
          THEN conjunct2, THEN conjunct2, THEN conjunct2, THEN conjunct2, THEN conjunct2,
          THEN conjunct1, THEN mp, OF b1])
  have b4: "fst (delete exEnv exCachedThis (Some exNoName) None None None None None None
                   Map.empty) = Inl ?namemsg"
    by (simp only: b3 fst_conv)
  have b5: "sent (snd (snd (delete exEnv exCachedThis (Some exNoName) None None None None None
                   None Map.empty))) = []"
    by (simp only: b3 snd_conv b2 s1)
  \<comment> \<open>the kind is not known to the server\<close>
  have f: "find (\<lambda>x. resourceKind x = ''Foo'') exCoreResources = None"
    by (simp add: exCoreResources_def)
  have c0: "kind exFoo = Some ''Foo'' \<and> ''Foo'' \<noteq> []
       \<and> fst (resource exEnv exThis (Some (specApiVersion exFoo)) (Some ''Foo'')) = Inr None"
    by (simp add: exFoo_def exPod_def specApiVersion_def exThis_discovery f)
  have av: "specApiVersion exFoo = ''v1''" by (simp add: exFoo_def specApiVersion_def)
  have c1: "fst (specUriPath exEnv exThis exFoo Read) = Inl ?unknown"
    using C5_path_errors_before_request [where spec = exFoo and this = exThis
          and ev = exEnv and action = Read and k = "''Foo''",
          THEN conjunct2, THEN conjunct2, THEN conjunct1, THEN mp, OF c0]
    by (simp add: av)
  have c2: "snd (snd (specUriPath exEnv exThis exFoo Read))
      = exThis\<lparr>sent := [metadataOptions exThis ''v1''],
               apiVersionResourceCache :=
                 [''v1'' \<mapsto> exDeserialize exCoreList ''V1APIResourceList'']\<rparr>"
    by (simp add: specUriPath_this exFoo_def exPod_def specApiVersion_def exThis_discovery
        truthy_def)
  have c3: "kind exFoo \<noteq> None \<and> truthy (apiVersion exFoo)
      \<and> fst (specUriPath exEnv exThis exFoo Read) = Inl ?unknown"
    using c1 by (simp add: exFoo_def truthy_def)
  have c4: "read exEnv exThis (Some exFoo) None None None Map.empty
       = (Inl ?unknown, Some (fst (snd (specUriPath exEnv exThis exFoo Read))),
          snd (snd (specUriPath exEnv exThis exFoo Read)))"
    by (rule C5_path_errors_before_request [where spec = exFoo and this = exThis
          and ev = exEnv and e = ?unknown,
          THEN conjunct2, THEN conjunct2, THEN conjunct2, THEN conjunct2, THEN conjunct2,
          THEN conjunct2, THEN conjunct2, THEN conjunct2, THEN conjunct1, THEN mp, OF c3])
  have c5: "fst (read exEnv exThis (Some exFoo) None None None Map.empty) = Inl ?unknown"
    by (simp only: c4 fst_conv)
  have c6: "sent (snd (snd (read exEnv exThis (Some exFoo) None None None Map.empty)))
       = [metadataOptions exThis ''v1'']"
    by (simp add: c4 c2)
  show ?thesis
    by (intro conjI) (fact a1 a2 a3 s0 b1 b4 b5 c1 c5 c6)+
qed

subsection \<open>What path building writes to the spec\<close>

lemma create_spec:
  "fst (snd (create ev this (Some s) pretty dryRun fieldManager oh))
     = Some (fst (snd (specUriPath ev this s Create)))"
  by (cases "specUriPath ev this s Create")
    (auto simp: create_def split: sum.splits prod.splits)

lemma delete_spec:
  "fst (snd (delete ev this (Some s) pretty dryRun grace orphan policy deleteBody oh))
     = Some (fst (snd (specUriPath ev this s Delete)))"
  by (cases "specUriPath ev this s Delete")
    (auto simp: delete_def split: sum.splits prod.splits)

lemma patch_spec:
  "fst (snd (patch ev this (Some s) pretty dryRun fieldManager force oh))
     = Some (fst (snd (specUriPath ev this s Patch)))"
  by (cases "specUriPath ev this s Patch")
    (auto simp: patch_def split: sum.splits prod.splits)

lemma replace_spec:
  "fst (snd (replace ev this (Some s) pretty dryRun fieldManager oh))
     = Some (fst (snd (specUriPath ev this s Replace)))"
  by (cases "specUriPath ev this s Replace")
    (auto simp: replace_def split: sum.splits prod.splits)

lemma read_spec:
  "fst (snd (read ev this (Some s) pretty exact exportt oh))
     = Some (if kind s = None \<or> \<not> truthy (apiVersion s) then s
             else fst (snd (specUriPath ev this s Read)))"
  by (cases "specUriPath ev this s Read")
    (auto simp: read_def split: sum.splits prod.splits)

text \<open>
  C10. After a successful path build the spec is the one given with two fields written:
  \<^verbatim>\<open>apiVersion\<close>, which keeps its value when set and is \<^verbatim>\<open>v1\<close> otherwise, and \<^verbatim>\<open>metadata\<close>,
  which exists afterwards and whose \<^verbatim>\<open>namespace\<close> is the client's default namespace when the
  resolved descriptor is namespaced, the action is not list and no namespace was set, and is
  what it was otherwise. The kind, the name, and every other property of the spec and of its
  metadata are as before. The operations that take a spec from the caller (create, delete,
  patch, replace, and read once its own checks have passed) hand that very spec to path
  building, so the caller's object is left as path building leaves it.
\<close>

theorem C10_specUriPath_writes:
  assumes "specUriPath ev this spec action = (Inr p, spec', this')"
  shows "(\<exists>k r. kind spec = Some k
            \<and> fst (resource ev this (Some (specApiVersion spec)) (Some k)) = Inr (Some r)
            \<and> spec' = spec\<lparr>apiVersion := Some (specApiVersion spec),
                   metadata := Some ((specMeta spec)
                     \<lparr>namespace := filledNamespace this spec r action\<rparr>)\<rparr>
            \<and> map_option namespace (metadata spec')
                = Some (if namespaced r \<and> action \<noteq> List
                           \<and> \<not> truthy (namespace (specMeta spec))
                        then Some (defaultNamespace this) else namespace (specMeta spec)))
    \<and> apiVersion spec'
        = (if truthy (apiVersion spec) then apiVersion spec else Some ''v1'')
    \<and> metadata spec' \<noteq> None
    \<and> kind spec' = kind spec
    \<and> objectRest spec' = objectRest spec
    \<and> map_option name (metadata spec') = Some (name (specMeta spec))
    \<and> map_option metaRest (metadata spec') = Some (metaRest (specMeta spec))
    \<and> fst (snd (create ev this (Some s) pretty dryRun fieldManager oh))
        = Some (fst (snd (specUriPath ev this s Create)))
    \<and> fst (snd (delete ev this (Some s) pretty dryRun grace orphan policy deleteBody oh))
        = Some (fst (snd (specUriPath ev this s Delete)))
    \<and> fst (snd (patch ev this (Some s) pretty dryRun fieldManager force oh))
        = Some (fst (snd (specUriPath ev this s Patch)))
    \<and> fst (snd (replace ev this (Some s) pretty dryRun fieldManager oh))
        = Some (fst (snd (specUriPath ev this s Replace)))
    \<and> fst (snd (read ev this (Some s) pretty exact exportt oh))
        = Some (if kind s = None \<or> \<not> truthy (apiVersion s) then s
                else fst (snd (specUriPath ev this s Read)))"
proof -
  from specUriPath_Inr [OF assms] obtain k r where
    k: "kind spec = Some k" "k \<noteq> []"
    and res: "resource ev this (Some (specApiVersion spec)) (Some k) = (Inr (Some r), this')"
    by blast
  have sp: "spec' = spec\<lparr>apiVersion := Some (specApiVersion spec),
                   metadata := Some ((specMeta spec)
                     \<lparr>namespace := filledNamespace this spec r action\<rparr>)\<rparr>"
    using assms by (simp add: specUriPath_resolved [OF k res])
  have av: "Some (specApiVersion spec)
      = (if truthy (apiVersion spec) then apiVersion spec else Some ''v1'')"
    by (auto simp: specApiVersion_def truthy_def split: option.splits)
  have ns: "map_option namespace (metadata spec')
                = Some (if namespaced r \<and> action \<noteq> List
                           \<and> \<not> truthy (namespace (specMeta spec))
                        then Some (defaultNamespace this) else namespace (specMeta spec))"
    unfolding sp by (simp add: filledNamespace_def)
  have ex: "\<exists>k r. kind spec = Some k
            \<and> fst (resource ev this (Some (specApiVersion spec)) (Some k)) = Inr (Some r)
            \<and> spec' = spec\<lparr>apiVersion := Some (specApiVersion spec),
                   metadata := Some ((specMeta spec)
                     \<lparr>namespace := filledNamespace this spec r action\<rparr>)\<rparr>
            \<and> map_option namespace (metadata spec')
                = Some (if namespaced r \<and> action \<noteq> List
                           \<and> \<not> truthy (namespace (specMeta spec))
                        then Some (defaultNamespace this) else namespace (specMeta spec))"
    using k(1) res sp ns by (intro exI [of _ k] exI [of _ r]) simp
  have f1: "apiVersion spec'
        = (if truthy (apiVersion spec) then apiVersion spec else Some ''v1'')"
    unfolding sp using av by simp
  have f2: "metadata spec' \<noteq> None" unfolding sp by simp
  have f3: "kind spec' = kind spec" unfolding sp by simp
  have f4: "objectRest spec' = objectRest spec" unfolding sp by simp
  have f5: "map_option name (metadata spec') = Some (name (specMeta spec))"
    unfolding sp by simp
  have f6: "map_option metaRest (metadata spec') = Some (metaRest (specMeta spec))"
    unfolding sp by simp
  show ?thesis
    by (intro conjI) (fact ex f1 f2 f3 f4 f5 f6 create_spec delete_spec patch_spec
        replace_spec read_spec)+
qed


lemma ex_lowerCase:
  "toLowerCase exEnv = asciiLowerCase" "toLowerCase exDownEnv = asciiLowerCase"
  "toLowerCase exConflictEnv = asciiLowerCase" "toLowerCase exStatusEnv = asciiLowerCase"
  "toLowerCase exNoBodyEnv = asciiLowerCase"
  by (simp_all add: exEnv_def exDownEnv_def exConflictEnv_def exStatusEnv_def exNoBodyEnv_def)

lemma exPod_path:
  assumes "toLowerCase ev = asciiLowerCase"
  shows "specUriPath ev exCachedThis exPod action =
     (Inr (if singleObject action then ''http://k8s/api/v1/namespaces/default/pods/foo''
           else if action = List then ''http://k8s/api/v1/pods''
           else ''http://k8s/api/v1/namespaces/default/pods''),
      exPod\<lparr>apiVersion := Some ''v1'',
            metadata := Some \<lparr>name = Some ''Foo'',
              namespace = (if action = List then None else Some ''default''),
              metaRest = []\<rparr>\<rparr>,
      exCachedThis)"
proof -
  have k: "kind exPod = Some ''Pod''" "''Pod'' \<noteq> []" by (simp_all add: exPod_def)
  have av: "specApiVersion exPod = ''v1''" by (simp add: specApiVersion_def exPod_def)
  have md: "specMeta exPod = \<lparr>name = Some ''Foo'', namespace = None, metaRest = []\<rparr>"
    by (simp add: specMeta_def exPod_def)
  have dn: "defaultNamespace exCachedThis = ''default''"
    by (simp add: exCachedThis_def exThis_def)
  have bp: "basePath exCachedThis = ''http://k8s''"
    by (simp add: exCachedThis_def exThis_def)
  have res: "resource ev exCachedThis (Some (specApiVersion exPod)) (Some ''Pod'')
     = (Inr (Some \<lparr>resourceKind = ''Pod'', resourceName = ''pods'', namespaced = True\<rparr>),
        exCachedThis)"
    by (simp only: av exCached_pod)
  show ?thesis
    unfolding specUriPath_resolved [OF k res]
    by (simp add: pathSegments_def filledNamespace_def rootSegment_def av md dn bp truthy_def
        string_defs singleObject_def assms)
qed

theorem C10_specUriPath_writes_witness:
  "specUriPath exEnv exCachedThis exPod Read
     = (Inr ''http://k8s/api/v1/namespaces/default/pods/foo'',
        exPod\<lparr>apiVersion := Some ''v1'',
              metadata := Some \<lparr>name = Some ''Foo'', namespace = Some ''default'',
                metaRest = []\<rparr>\<rparr>,
        exCachedThis)
   \<and> apiVersion exPod = None \<and> map_option namespace (metadata exPod) = Some None
   \<and> apiVersion (fst (snd (specUriPath exEnv exCachedThis exPod Read))) = Some ''v1''
   \<and> map_option namespace (metadata (fst (snd (specUriPath exEnv exCachedThis exPod Read))))
       = Some (Some ''default'')
   \<and> kind (fst (snd (specUriPath exEnv exCachedThis exPod Read))) = kind exPod
   \<and> objectRest (fst (snd (specUriPath exEnv exCachedThis exPod Read))) = objectRest exPod
   \<and> map_option name (metadata (fst (snd (specUriPath exEnv exCachedThis exPod Read))))
       = map_option name (metadata exPod)
   \<and> map_option metaRest (metadata (fst (snd (specUriPath exEnv exCachedThis exPod Read))))
       = map_option metaRest (metadata exPod)
   \<and> fst (snd (create exEnv exCachedThis (Some exPod) None None None Map.empty))
       = Some (exPod\<lparr>apiVersion := Some ''v1'',
              metadata := Some \<lparr>name = Some ''Foo'', namespace = Some ''default'',
                metaRest = []\<rparr>\<rparr>)"
proof -
  let ?spec' = "exPod\<lparr>apiVersion := Some ''v1'',
              metadata := Some \<lparr>name = Some ''Foo'', namespace = Some ''default'',
                metaRest = []\<rparr>\<rparr>"
  have h: "specUriPath exEnv exCachedThis exPod Read
     = (Inr ''http://k8s/api/v1/namespaces/default/pods/foo'', ?spec', exCachedThis)"
    by (simp add: exPod_path ex_lowerCase singleObject_def)
  have sp: "fst (snd (specUriPath exEnv exCachedThis exPod Read)) = ?spec'"
    by (simp only: h fst_conv snd_conv)
  have md: "specMeta exPod = \<lparr>name = Some ''Foo'', namespace = None, metaRest = []\<rparr>"
    by (simp add: specMeta_def exPod_def)
  have e1: "apiVersion exPod = None" by (simp add: exPod_def)
  have e2: "map_option namespace (metadata exPod) = Some None" by (simp add: exPod_def)
  have e3: "map_option name (metadata exPod) = Some (Some ''Foo'')" by (simp add: exPod_def)
  have e4: "map_option metaRest (metadata exPod) = Some []" by (simp add: exPod_def)
  note w = C10_specUriPath_writes [OF h, where s = exPod and pretty = None and dryRun = None
      and fieldManager = None and oh = Map.empty]
  have w1: "apiVersion ?spec' = Some ''v1''"
    using w by (simp add: e1 truthy_def)
  have w2: "map_option namespace (metadata ?spec') = Some (Some ''default'')"
    by simp
  have w3: "kind ?spec' = kind exPod" using w by blast
  have w4: "objectRest ?spec' = objectRest exPod" using w by blast
  have w5: "map_option name (metadata ?spec') = map_option name (metadata exPod)"
    using w by (simp add: e3 md)
  have w6: "map_option metaRest (metadata ?spec') = map_option metaRest (metadata exPod)"
    using w by (simp add: e4 md)
  have w7: "fst (snd (create exEnv exCachedThis (Some exPod) None None None Map.empty))
       = Some ?spec'"
    using w by (simp add: exPod_path ex_lowerCase singleObject_def)
  show ?thesis
    unfolding sp
    by (intro conjI) (fact h e1 e2 w1 w2 w3 w4 w5 w6 w7)+
qed

subsection \<open>The request of an operation and the decoding of its answer\<close>

lemma requestPromise_Inr:
  assumes "fst (requestPromise ev this ro ty) = Inr (b', rsp)"
  shows "\<exists>b t. answered ev (snd (requestPromise ev this ro ty)) rsp b
     \<and> (case ty of None \<Rightarrow> bodyType ev b | Some t \<Rightarrow> Inr t) = Inr t
     \<and> b' = deserialize ev b t"
  using assms
  by (auto simp: requestPromise_def Let_def answered_def
      split: sum.splits response.splits if_splits)

lemma bodyType_Inr:
  "bodyType ev b = Inr ty \<Longrightarrow>
     \<exists>r. b = Value r \<and> getSerializationType ev (bodyApiVersion r) (bodyKind r) = Inr ty"
  by (cases b) (simp_all add: bodyType_def)

lemma create_request:
  assumes "specUriPath ev this s Create = (Inr p, s', this')"
  shows "create ev this (Some s) pretty dryRun fieldManager oh =
     (fst (requestPromise ev this'
             (createOptions ev this' p s' pretty dryRun fieldManager oh) None),
      Some s',
      snd (requestPromise ev this'
             (createOptions ev this' p s' pretty dryRun fieldManager oh) None))"
  using assms by (simp add: create_def split: prod.splits)

lemma delete_request:
  assumes "specUriPath ev this s Delete = (Inr p, s', this')"
  shows "delete ev this (Some s) pretty dryRun grace orphan policy deleteBody oh =
     (fst (requestPromise ev this'
             (deleteOptions ev this' p pretty dryRun grace orphan policy deleteBody oh)
             (Some ''V1Status'')),
      Some s',
      snd (requestPromise ev this'
             (deleteOptions ev this' p pretty dryRun grace orphan policy deleteBody oh)
             (Some ''V1Status'')))"
  using assms by (simp add: delete_def split: prod.splits)

lemma patch_request:
  assumes "specUriPath ev this s Patch = (Inr p, s', this')"
  shows "patch ev this (Some s) pretty dryRun fieldManager force oh =
     (fst (requestPromise ev this'
             (patchOptions ev this' p s' pretty dryRun fieldManager force oh) None),
      Some s',
      snd (requestPromise ev this'
             (patchOptions ev this' p s' pretty dryRun fieldManager force oh) None))"
  using assms by (simp add: patch_def split: prod.splits)

lemma replace_request:
  assumes "specUriPath ev this s Replace = (Inr p, s', this')"
  shows "replace ev this (Some s) pretty dryRun fieldManager oh =
     (fst (requestPromise ev this'
             (replaceOptions ev this' p s' pretty dryRun fieldManager oh) None),
      Some s',
      snd (requestPromise ev this'
             (replaceOptions ev this' p s' pretty dryRun fieldManager oh) None))"
  using assms by (simp add: replace_def split: prod.splits)

lemma read_request:
  assumes "specUriPath ev this s Read = (Inr p, s', this')"
    and "kind s \<noteq> None" and "truthy (apiVersion s)"
  shows "read ev this (Some s) pretty exact exportt oh =
     (fst (requestPromise ev this' (readOptions ev this' p pretty exact exportt oh) None),
      Some s',
      snd (requestPromise ev this' (readOptions ev this' p pretty exact exportt oh) None))"
proof -
  from assms(2) obtain kk where "kind s = Some kk" by auto
  then show ?thesis
    using assms(1,3) by (simp add: read_def split: prod.splits)
qed

lemma list_request:
  assumes "specUriPath ev this (listSpec av k ns) List = (Inr p, s', this')"
  shows "list ev this (Some av) (Some k) ns pretty exact exportt fieldSelector labelSelector
           limit continueToken oh =
     requestPromise ev this'
       (listOptions ev this' p pretty exact exportt fieldSelector labelSelector limit
          continueToken oh) None"
  using assms by (simp add: list_def)

lemma create_Inr:
  assumes "fst (create ev this spec pretty dryRun fieldManager oh) = Inr (b', rsp)"
  shows "\<exists>b. answered ev (snd (snd (create ev this spec pretty dryRun fieldManager oh))) rsp b
     \<and> (\<exists>r ty. b = Value r
           \<and> getSerializationType ev (bodyApiVersion r) (bodyKind r) = Inr ty
           \<and> b' = deserialize ev b ty)"
proof (cases spec)
  case None
  then show ?thesis using assms by (simp add: create_def)
next
  case (Some s)
  obtain x s' this' where x: "specUriPath ev this s Create = (x, s', this')"
    by (cases "specUriPath ev this s Create")
  show ?thesis
  proof (cases x)
    case (Inl e)
    then show ?thesis using assms Some x by (simp add: create_def)
  next
    case (Inr p)
    then have eq: "specUriPath ev this s Create = (Inr p, s', this')" using x by simp
    show ?thesis
      using assms requestPromise_Inr [of ev this' _ None b' rsp] bodyType_Inr
      unfolding Some create_request [OF eq] by fastforce
  qed
qed


lemma delete_Inr:
  assumes "fst (delete ev this spec pretty dryRun grace orphan policy deleteBody oh) = Inr (b', rsp)"
  shows "\<exists>b. answered ev (snd (snd (delete ev this spec pretty dryRun grace orphan policy deleteBody oh))) rsp b
     \<and> b' = deserialize ev b (''V1Status'')"
proof (cases spec)
  case None
  then show ?thesis using assms by (simp add: delete_def)
next
  case (Some s)
  obtain x s' this' where x: "specUriPath ev this s Delete = (x, s', this')"
    by (cases "specUriPath ev this s Delete")
  show ?thesis
  proof (cases x)
    case (Inl e)
    then show ?thesis using assms Some x by (simp add: delete_def)
  next
    case (Inr p)
    then have eq: "specUriPath ev this s Delete = (Inr p, s', this')" using x by simp
    show ?thesis
      using assms requestPromise_Inr [of ev this' _ "Some ''V1Status''" b' rsp]
      unfolding Some delete_request [OF eq] by fastforce
  qed
qed

lemma patch_Inr:
  assumes "fst (patch ev this spec pretty dryRun fieldManager force oh) = Inr (b', rsp)"
  shows "\<exists>b. answered ev (snd (snd (patch ev this spec pretty dryRun fieldManager force oh))) rsp b
     \<and> (\<exists>r ty. b = Value r
           \<and> getSerializationType ev (bodyApiVersion r) (bodyKind r) = Inr ty
           \<and> b' = deserialize ev b ty)"
proof (cases spec)
  case None
  then show ?thesis using assms by (simp add: patch_def)
next
  case (Some s)
  obtain x s' this' where x: "specUriPath ev this s Patch = (x, s', this')"
    by (cases "specUriPath ev this s Patch")
  show ?thesis
  proof (cases x)
    case (Inl e)
    then show ?thesis using assms Some x by (simp add: patch_def)
  next
    case (Inr p)
    then have eq: "specUriPath ev this s Patch = (Inr p, s', this')" using x by simp
    show ?thesis
      using assms requestPromise_Inr [of ev this' _ None b' rsp] bodyType_Inr
      unfolding Some patch_request [OF eq] by fastforce
  qed
qed

lemma replace_Inr:
  assumes "fst (replace ev this spec pretty dryRun fieldManager oh) = Inr (b', rsp)"
  shows "\<exists>b. answered ev (snd (snd (replace ev this spec pretty dryRun fieldManager oh))) rsp b
     \<and> (\<exists>r ty. b = Value r
           \<and> getSerializationType ev (bodyApiVersion r) (bodyKind r) = Inr ty
           \<and> b' = deserialize ev b ty)"
proof (cases spec)
  case None
  then show ?thesis using assms by (simp add: replace_def)
next
  case (Some s)
  obtain x s' this' where x: "specUriPath ev this s Replace = (x, s', this')"
    by (cases "specUriPath ev this s Replace")
  show ?thesis
  proof (cases x)
    case (Inl e)
    then show ?thesis using assms Some x by (simp add: replace_def)
  next
    case (Inr p)
    then have eq: "specUriPath ev this s Replace = (Inr p, s', this')" using x by simp
    show ?thesis
      using assms requestPromise_Inr [of ev this' _ None b' rsp] bodyType_Inr
      unfolding Some replace_request [OF eq] by fastforce
  qed
qed

lemma read_Inr:
  assumes "fst (read ev this spec pretty exact exportt oh) = Inr (b', rsp)"
  shows "\<exists>b. answered ev (snd (snd (read ev this spec pretty exact exportt oh))) rsp b
     \<and> (\<exists>r ty. b = Value r
           \<and> getSerializationType ev (bodyApiVersion r) (bodyKind r) = Inr ty
           \<and> b' = deserialize ev b ty)"
proof (cases spec)
  case None
  then show ?thesis using assms by (simp add: read_def)
next
  case (Some s)
  have k: "kind s \<noteq> None" and a: "truthy (apiVersion s)"
    using assms Some by (auto simp: read_def split: if_splits)
  obtain x s' this' where x: "specUriPath ev this s Read = (x, s', this')"
    by (cases "specUriPath ev this s Read")
  show ?thesis
  proof (cases x)
    case (Inl e)
    then show ?thesis using assms Some x k a by (simp add: read_def)
  next
    case (Inr p)
    then have eq: "specUriPath ev this s Read = (Inr p, s', this')" using x by simp
    show ?thesis
      using assms requestPromise_Inr [of ev this' _ None b' rsp] bodyType_Inr
      unfolding Some read_request [OF eq k a] by fastforce
  qed
qed

lemma list_Inr:
  assumes "fst (list ev this av k ns pretty exact exportt fieldSelector labelSelector limit
                  continueToken oh) = Inr (b', rsp)"
  shows "\<exists>b. answered ev (snd (list ev this av k ns pretty exact exportt fieldSelector
                    labelSelector limit continueToken oh)) rsp b
     \<and> (\<exists>r ty. b = Value r
           \<and> getSerializationType ev (bodyApiVersion r) (bodyKind r) = Inr ty
           \<and> b' = deserialize ev b ty)"
proof -
  obtain a where a: "av = Some a" using assms by (cases av) (simp_all add: list_def)
  obtain kd where kd: "k = Some kd" using assms a by (cases k) (simp_all add: list_def)
  obtain x s' this' where x: "specUriPath ev this (listSpec a kd ns) List = (x, s', this')"
    by (cases "specUriPath ev this (listSpec a kd ns) List")
  show ?thesis
  proof (cases x)
    case (Inl e)
    then show ?thesis using assms a kd x by (simp add: list_def)
  next
    case (Inr p)
    then have eq: "specUriPath ev this (listSpec a kd ns) List = (Inr p, s', this')"
      using x by simp
    show ?thesis
      using assms requestPromise_Inr [of ev this' _ None b' rsp] bodyType_Inr
      unfolding a kd list_request [OF eq] by fastforce
  qed
qed

lemma exEnv_request_pod:
  "uri q \<noteq> ''http://k8s/api/v1'' \<Longrightarrow> request exEnv hist q = NetResponse exOk exPodBody"
  by (simp add: exEnv_def exRequest_def)

lemma exOk_statusOk: "statusOk (statusCode exOk)"
  by (simp add: statusOk_def exOk_def)

lemma ex_upperCase:
  "toUpperCase exEnv = asciiUpperCase" "toUpperCase exDownEnv = asciiUpperCase"
  "toUpperCase exConflictEnv = asciiUpperCase" "toUpperCase exStatusEnv = asciiUpperCase"
  "toUpperCase exNoBodyEnv = asciiUpperCase"
  by (simp_all add: exEnv_def exDownEnv_def exConflictEnv_def exStatusEnv_def exNoBodyEnv_def)

lemma ex_v1_type:
  assumes "toUpperCase ev = asciiUpperCase"
  shows "getSerializationType ev (Some (JStr ''v1'')) (Some (JStr k)) = Inr (''V1'' @ k)"
  by (simp add: getSerializationType_def groupVersion_def upperFirst_def jsString_def Let_def
      assms string_defs)

lemma exPodBody_type:
  assumes "toUpperCase ev = asciiUpperCase"
  shows "bodyType ev exPodBody = Inr ''V1Pod''"
  by (simp add: bodyType_def exPodBody_def ex_v1_type [OF assms])

lemma exPod_create:
  "fst (create exEnv exCachedThis (Some exPod) None None None Map.empty)
     = Inr (exDeserialize exPodBody ''V1Pod'', exOk)"
proof -
  let ?p = "''http://k8s/api/v1/namespaces/default/pods''"
  let ?s' = "exPod\<lparr>apiVersion := Some ''v1'',
            metadata := Some \<lparr>name = Some ''Foo'', namespace = Some ''default'',
              metaRest = []\<rparr>\<rparr>"
  let ?q = "createOptions exEnv exCachedThis ?p ?s' None None None Map.empty"
  have p: "specUriPath exEnv exCachedThis exPod Create = (Inr ?p, ?s', exCachedThis)"
    by (simp add: exPod_path ex_lowerCase singleObject_def)
  have u: "uri ?q \<noteq> ''http://k8s/api/v1''" by (simp add: createOptions_def Let_def)
  have d: "deserialize exEnv = exDeserialize" by (simp add: exEnv_def)
  have t: "(case None of None \<Rightarrow> bodyType exEnv exPodBody | Some t \<Rightarrow> Inr t) = Inr ''V1Pod''"
    by (simp add: exPodBody_type ex_upperCase)
  show ?thesis
    unfolding create_request [OF p]
    using requestPromise_ok [OF exCachedThis_authenticate exEnv_request_pod [OF u]
        exOk_statusOk t]
    by (simp add: d)
qed

lemma exPod_delete:
  "delete exEnv exCachedThis (Some exPod) None None None None None None Map.empty
     = (Inr (exDeserialize exPodBody ''V1Status'', exOk),
        Some (exPod\<lparr>apiVersion := Some ''v1'',
            metadata := Some \<lparr>name = Some ''Foo'', namespace = Some ''default'',
              metaRest = []\<rparr>\<rparr>),
        exCachedThis\<lparr>sent := [deleteOptions exEnv exCachedThis
            ''http://k8s/api/v1/namespaces/default/pods/foo'' None None None None None None
            Map.empty]\<rparr>)"
proof -
  let ?p = "''http://k8s/api/v1/namespaces/default/pods/foo''"
  let ?s' = "exPod\<lparr>apiVersion := Some ''v1'',
            metadata := Some \<lparr>name = Some ''Foo'', namespace = Some ''default'',
              metaRest = []\<rparr>\<rparr>"
  let ?q = "deleteOptions exEnv exCachedThis ?p None None None None None None Map.empty"
  have p: "specUriPath exEnv exCachedThis exPod Delete = (Inr ?p, ?s', exCachedThis)"
    by (simp add: exPod_path ex_lowerCase singleObject_def)
  have u: "uri ?q \<noteq> ''http://k8s/api/v1''" by (simp add: deleteOptions_def Let_def)
  have d: "deserialize exEnv = exDeserialize" by (simp add: exEnv_def)
  have s: "sent exCachedThis = []" by (simp add: exCachedThis_def exThis_def)
  have t: "(case Some ''V1Status'' of None \<Rightarrow> bodyType exEnv exPodBody | Some t \<Rightarrow> Inr t)
      = Inr ''V1Status''"
    by simp
  show ?thesis
    unfolding delete_request [OF p]
    using requestPromise_ok [OF exCachedThis_authenticate exEnv_request_pod [OF u]
        exOk_statusOk t]
    by (simp add: d s)
qed

text \<open>
  C3, as stated, fails for delete. The server answers the delete of a pod with the pod
  (\<^verbatim>\<open>apiVersion\<close> \<^verbatim>\<open>v1\<close>, \<^verbatim>\<open>kind\<close> \<^verbatim>\<open>Pod\<close>), whose own type name is \<^verbatim>\<open>V1Pod\<close>; the body the operation
  returns was decoded with the type name \<^verbatim>\<open>V1Status\<close>.
\<close>

theorem C3_delete_counterexample:
  "fst (delete exEnv exCachedThis (Some exPod) None None None None None None Map.empty)
     = Inr (exDeserialize exPodBody ''V1Status'', exOk)
   \<and> answered exEnv
        (snd (snd (delete exEnv exCachedThis (Some exPod) None None None None None None
                     Map.empty))) exOk exPodBody
   \<and> bodyType exEnv exPodBody = Inr ''V1Pod''
   \<and> exDeserialize exPodBody ''V1Status'' \<noteq> deserialize exEnv exPodBody ''V1Pod''"
proof -
  have a: "answered exEnv
        (snd (snd (delete exEnv exCachedThis (Some exPod) None None None None None None
                     Map.empty))) exOk exPodBody"
    unfolding exPod_delete
    by (simp add: answered_def exEnv_request_pod deleteOptions_def Let_def)
  have n: "exDeserialize exPodBody ''V1Status'' \<noteq> deserialize exEnv exPodBody ''V1Pod''"
    by (simp add: exEnv_def exDeserialize_def exPodBody_def)
  have t: "bodyType exEnv exPodBody = Inr ''V1Pod''"
    by (simp add: exPodBody_type ex_upperCase)
  show ?thesis
    using a n t by (simp add: exPod_delete)
qed

text \<open>
  C3, amended. For create, read, replace, patch and list, the body an operation returns is
  the body the transport delivered for the request sent last, decoded with the type name
  derived from that body's own \<^verbatim>\<open>apiVersion\<close> and \<^verbatim>\<open>kind\<close>; for delete it is decoded with the
  fixed type name \<^verbatim>\<open>V1Status\<close>.
\<close>

theorem C3_response_decoding:
  "(fst (create ev this spec pretty dryRun fieldManager oh) = Inr (b', rsp) \<longrightarrow>
      (\<exists>b. answered ev (snd (snd (create ev this spec pretty dryRun fieldManager oh))) rsp b
         \<and> (\<exists>r ty. b = Value r
               \<and> getSerializationType ev (bodyApiVersion r) (bodyKind r) = Inr ty
               \<and> b' = deserialize ev b ty)))
   \<and> (fst (read ev this spec pretty exact exportt oh) = Inr (b', rsp) \<longrightarrow>
      (\<exists>b. answered ev (snd (snd (read ev this spec pretty exact exportt oh))) rsp b
         \<and> (\<exists>r ty. b = Value r
               \<and> getSerializationType ev (bodyApiVersion r) (bodyKind r) = Inr ty
               \<and> b' = deserialize ev b ty)))
   \<and> (fst (replace ev this spec pretty dryRun fieldManager oh) = Inr (b', rsp) \<longrightarrow>
      (\<exists>b. answered ev (snd (snd (replace ev this spec pretty dryRun fieldManager oh))) rsp b
         \<and> (\<exists>r ty. b = Value r
               \<and> getSerializationType ev (bodyApiVersion r) (bodyKind r) = Inr ty
               \<and> b' = deserialize ev b ty)))
   \<and> (fst (patch ev this spec pretty dryRun fieldManager force oh) = Inr (b', rsp) \<longrightarrow>
      (\<exists>b. answered ev (snd (snd (patch ev this spec pretty dryRun fieldManager force oh)))
            rsp b
         \<and> (\<exists>r ty. b = Value r
               \<and> getSerializationType ev (bodyApiVersion r) (bodyKind r) = Inr ty
               \<and> b' = deserialize ev b ty)))
   \<and> (fst (list ev this av k ns pretty exact exportt fieldSelector labelSelector limit
              continueToken oh) = Inr (b', rsp) \<longrightarrow>
      (\<exists>b. answered ev (snd (list ev this av k ns pretty exact exportt fieldSelector
                 labelSelector limit continueToken oh)) rsp b
         \<and> (\<exists>r ty. b = Value r
               \<and> getSerializationType ev (bodyApiVersion r) (bodyKind r) = Inr ty
               \<and> b' = deserialize ev b ty)))
   \<and> (fst (delete ev this spec pretty dryRun grace orphan policy deleteBody oh)
         = Inr (b', rsp) \<longrightarrow>
      (\<exists>b. answered ev (snd (snd (delete ev this spec pretty dryRun grace orphan policy
                 deleteBody oh))) rsp b
         \<and> b' = deserialize ev b ''V1Status''))"
  apply (intro conjI impI)
       apply (erule create_Inr)
      apply (erule read_Inr)
     apply (erule replace_Inr)
    apply (erule patch_Inr)
   apply (erule list_Inr)
  apply (erule delete_Inr)
  done


theorem C3_response_decoding_witness:
  "fst (create exEnv exCachedThis (Some exPod) None None None Map.empty)
     = Inr (exDeserialize exPodBody ''V1Pod'', exOk)
   \<and> (\<exists>b. answered exEnv
             (snd (snd (create exEnv exCachedThis (Some exPod) None None None Map.empty)))
             exOk b
          \<and> (\<exists>r ty. b = Value r
                \<and> getSerializationType exEnv (bodyApiVersion r) (bodyKind r) = Inr ty
                \<and> exDeserialize exPodBody ''V1Pod'' = deserialize exEnv b ty))
   \<and> fst (delete exEnv exCachedThis (Some exPod) None None None None None None Map.empty)
       = Inr (exDeserialize exPodBody ''V1Status'', exOk)
   \<and> (\<exists>b. answered exEnv
             (snd (snd (delete exEnv exCachedThis (Some exPod) None None None None None
                          None Map.empty))) exOk b
          \<and> exDeserialize exPodBody ''V1Status'' = deserialize exEnv b ''V1Status'')"
proof -
  have c: "fst (create exEnv exCachedThis (Some exPod) None None None Map.empty)
     = Inr (exDeserialize exPodBody ''V1Pod'', exOk)"
    by (rule exPod_create)
  have d: "fst (delete exEnv exCachedThis (Some exPod) None None None None None None
                  Map.empty) = Inr (exDeserialize exPodBody ''V1Status'', exOk)"
    by (simp add: exPod_delete)
  note t = C3_response_decoding [where ev = exEnv and this = exCachedThis
      and spec = "Some exPod" and pretty = None and dryRun = None and fieldManager = None
      and oh = Map.empty and rsp = exOk and grace = None and orphan = None
      and policy = None and deleteBody = None]
  have c': "\<exists>b. answered exEnv
             (snd (snd (create exEnv exCachedThis (Some exPod) None None None Map.empty)))
             exOk b
          \<and> (\<exists>r ty. b = Value r
                \<and> getSerializationType exEnv (bodyApiVersion r) (bodyKind r) = Inr ty
                \<and> exDeserialize exPodBody ''V1Pod'' = deserialize exEnv b ty)"
    by (rule t [where b' = "exDeserialize exPodBody ''V1Pod''", THEN conjunct1, THEN mp, OF c])
  have d': "\<exists>b. answered exEnv
             (snd (snd (delete exEnv exCachedThis (Some exPod) None None None None None
                          None Map.empty))) exOk b
          \<and> exDeserialize exPodBody ''V1Status'' = deserialize exEnv b ''V1Status''"
    by (rule t [where b' = "exDeserialize exPodBody ''V1Status''", THEN conjunct2,
          THEN conjunct2, THEN conjunct2, THEN conjunct2, THEN conjunct2, THEN mp, OF d])
  show ?thesis
    by (intro conjI) (fact c c' d d')+
qed

subsection \<open>Failures\<close>

lemma requestPromise_error:
  assumes "authenticate this ro = Inr q" and "request ev (sent this) q = NetError e"
  shows "requestPromise ev this ro ty = (Inl (Thrown e), this\<lparr>sent := sent this @ [q]\<rparr>)"
  using assms by (simp add: requestPromise_def Let_def)

lemma requestPromise_non2xx:
  assumes "authenticate this ro = Inr q" and "request ev (sent this) q = NetResponse rsp b"
    and "\<not> statusOk (statusCode rsp)"
    and "(case ty of None \<Rightarrow> bodyType ev b | Some t \<Rightarrow> Inr t) = Inr t'"
  shows "requestPromise ev this ro ty =
     (Inl (Thrown (HttpError rsp (deserialize ev b t') (statusCode rsp) (httpErrorMessage ev))),
      this\<lparr>sent := sent this @ [q]\<rparr>)"
  using assms by (simp add: requestPromise_def Let_def)

lemma requestPromise_pending:
  assumes "authenticate this ro = Inr q" and "request ev (sent this) q = NetResponse rsp b"
    and "bodyType ev b = Inl e"
  shows "requestPromise ev this ro None = (Inl Pending, this\<lparr>sent := sent this @ [q]\<rparr>)"
  using assms by (simp add: requestPromise_def Let_def)

lemma resource_fetch_failed:
  assumes "cached ev this av k = Inr None"
    and "fst (requestPromise ev this (metadataOptions this av) (Some ''V1APIResourceList''))
           = Inl (Thrown e)"
  shows "resource ev this (Some av) (Some k) =
     (Inl (Thrown (prefixMessage
             (''Failed to fetch resource metadata for '' @ av @ ''/'' @ k @ '': '') e)),
      snd (requestPromise ev this (metadataOptions this av) (Some ''V1APIResourceList'')))"
  using assms(2) unfolding resource_miss [OF assms(1)]
  by (cases "requestPromise ev this (metadataOptions this av) (Some ''V1APIResourceList'')")
    simp

lemma exDown_request: "request exDownEnv hist q = NetError (Error ''ECONNREFUSED'')"
  by (simp add: exDownEnv_def exEnv_def)

lemma exConflict_request:
  "uri q \<noteq> ''http://k8s/api/v1'' \<Longrightarrow>
     request exConflictEnv hist q = NetResponse exConflict exStatusBody"
  by (simp add: exConflictEnv_def exEnv_def)

lemma exNoBody_request:
  "uri q \<noteq> ''http://k8s/api/v1'' \<Longrightarrow>
     request exNoBodyEnv hist q = NetResponse exConflict Undefined"
  by (simp add: exNoBodyEnv_def exEnv_def)

lemma exStatusBody_type:
  assumes "toUpperCase ev = asciiUpperCase"
  shows "getSerializationType ev (Some (JStr ''v1'')) (Some (JStr ''Status'')) = Inr ''V1Status''"
  by (simp add: ex_v1_type [OF assms])

lemma exDown_create:
  "create exDownEnv exThis (Some exPod) None None None Map.empty
     = (Inl (Thrown (Error ''Failed to fetch resource metadata for v1/Pod: ECONNREFUSED'')),
        Some (exPod\<lparr>apiVersion := Some ''v1'', metadata := Some (specMeta exPod)\<rparr>),
        exThis\<lparr>sent := [metadataOptions exThis ''v1'']\<rparr>)"
proof -
  have c: "cached exDownEnv exThis ''v1'' ''Pod'' = Inr None" by (rule exThis_cached)
  have s0: "sent exThis = []" by (simp add: exThis_def)
  have rp: "requestPromise exDownEnv exThis (metadataOptions exThis ''v1'')
              (Some ''V1APIResourceList'')
      = (Inl (Thrown (Error ''ECONNREFUSED'')),
         exThis\<lparr>sent := [metadataOptions exThis ''v1'']\<rparr>)"
    using requestPromise_error [OF exThis_authenticate exDown_request] by (simp add: s0)
  have r: "resource exDownEnv exThis (Some ''v1'') (Some ''Pod'')
      = (Inl (Thrown (Error ''Failed to fetch resource metadata for v1/Pod: ECONNREFUSED'')),
         exThis\<lparr>sent := [metadataOptions exThis ''v1'']\<rparr>)"
    using resource_fetch_failed [OF c, of "Error ''ECONNREFUSED''"]
    by (simp add: rp)
  have k: "kind exPod = Some ''Pod''" "''Pod'' \<noteq> []" by (simp_all add: exPod_def)
  have av: "specApiVersion exPod = ''v1''" by (simp add: specApiVersion_def exPod_def)
  have p: "specUriPath exDownEnv exThis exPod Create
      = (Inl (Thrown (Error ''Failed to fetch resource metadata for v1/Pod: ECONNREFUSED'')),
         exPod\<lparr>apiVersion := Some ''v1'', metadata := Some (specMeta exPod)\<rparr>,
         exThis\<lparr>sent := [metadataOptions exThis ''v1'']\<rparr>)"
    using specUriPath_fetch_failed [OF k, of exDownEnv exThis _ _ Create] r
    by (simp add: av)
  show ?thesis
    using create_path_failed [of exDownEnv exThis exPod
        "Thrown (Error ''Failed to fetch resource metadata for v1/Pod: ECONNREFUSED'')"]
    by (simp add: p)
qed

text \<open>
  A response without a body, when the type name is to be taken from the body: the read of
  \<^verbatim>\<open>body.apiVersion\<close> throws inside the callback of the transport, before the status is
  looked at, and the promise of \<^verbatim>\<open>requestPromise\<close> is never settled. So a conflict answered
  without a body leaves create pending, with its request sent.
\<close>

lemma exNoBody_create:
  "create exNoBodyEnv exCachedThis (Some exPod) None None None Map.empty
     = (Inl Pending,
        Some (exPod\<lparr>apiVersion := Some ''v1'',
            metadata := Some \<lparr>name = Some ''Foo'', namespace = Some ''default'',
              metaRest = []\<rparr>\<rparr>),
        exCachedThis\<lparr>sent := [createOptions exNoBodyEnv exCachedThis
            ''http://k8s/api/v1/namespaces/default/pods''
            (exPod\<lparr>apiVersion := Some ''v1'',
              metadata := Some \<lparr>name = Some ''Foo'', namespace = Some ''default'',
                metaRest = []\<rparr>\<rparr>) None None None Map.empty]\<rparr>)"
proof -
  let ?p = "''http://k8s/api/v1/namespaces/default/pods''"
  let ?s' = "exPod\<lparr>apiVersion := Some ''v1'',
            metadata := Some \<lparr>name = Some ''Foo'', namespace = Some ''default'',
              metaRest = []\<rparr>\<rparr>"
  let ?q = "createOptions exNoBodyEnv exCachedThis ?p ?s' None None None Map.empty"
  have l: "toLowerCase exNoBodyEnv = asciiLowerCase"
    by (simp add: exNoBodyEnv_def exEnv_def)
  have p: "specUriPath exNoBodyEnv exCachedThis exPod Create = (Inr ?p, ?s', exCachedThis)"
    by (simp add: exPod_path l singleObject_def)
  have u: "uri ?q \<noteq> ''http://k8s/api/v1''" by (simp add: createOptions_def Let_def)
  have s: "sent exCachedThis = []" by (simp add: exCachedThis_def exThis_def)
  have t: "bodyType exNoBodyEnv Undefined
      = Inl (Error (typeErrorMessage exNoBodyEnv None ''apiVersion''))"
    by (simp add: bodyType_def)
  show ?thesis
    unfolding create_request [OF p]
    using requestPromise_pending [OF exCachedThis_authenticate exNoBody_request [OF u] t]
    by (simp add: s)
qed

text \<open>
  C6, as stated, fails for a transport failure of the metadata fetch. With an empty cache
  and a server that refuses the connection, create sends the metadata request only; the
  transport's error is \<^verbatim>\<open>ECONNREFUSED\<close>, and the error create ends with has another message.
\<close>

theorem C6_metadata_fetch_counterexample:
  "fst (create exDownEnv exThis (Some exPod) None None None Map.empty)
     = Inl (Thrown (Error ''Failed to fetch resource metadata for v1/Pod: ECONNREFUSED''))
   \<and> sent (snd (snd (create exDownEnv exThis (Some exPod) None None None Map.empty)))
       = [metadataOptions exThis ''v1'']
   \<and> request exDownEnv [] (metadataOptions exThis ''v1'') = NetError (Error ''ECONNREFUSED'')
   \<and> Error ''Failed to fetch resource metadata for v1/Pod: ECONNREFUSED''
       \<noteq> Error ''ECONNREFUSED''"
  by (simp add: exDown_create exDown_request)

text \<open>
  C6, amended. Let a response have a status outside 200..299. When \<^verbatim>\<open>requestPromise\<close> is given
  the type name (as by delete and by the metadata fetch), or when the body is a value
  whose own \<^verbatim>\<open>apiVersion\<close> and \<^verbatim>\<open>kind\<close> yield a type name, it fails with an \<^verbatim>\<open>HttpError\<close> that
  carries the response, the body decoded with that type name and the status code. An
  error of the transport makes it fail with that very error. Every operation ends with
  the outcome of \<^verbatim>\<open>requestPromise\<close> on its own request, unchanged. A failure of the metadata
  fetch of the resolver, of either kind, comes out of \<^verbatim>\<open>resource\<close>, and so out of path
  building and of the operation, with \<^verbatim>\<open>Failed to fetch resource metadata for\<close>, the API
  version, \<^verbatim>\<open>/\<close>, the kind and \<^verbatim>\<open>:\<close> put in front of its message when it is an \<^verbatim>\<open>Error\<close>, and is
  otherwise the same.
\<close>

theorem C6_failures_surfaced:
  "(authenticate this ro = Inr q \<and> request ev (sent this) q = NetResponse rsp b
      \<and> \<not> statusOk (statusCode rsp) \<longrightarrow>
      fst (requestPromise ev this ro (Some t)) =
        Inl (Thrown (HttpError rsp (deserialize ev b t) (statusCode rsp)
                       (httpErrorMessage ev))))
   \<and> (authenticate this ro = Inr q \<and> request ev (sent this) q = NetResponse rsp (Value r)
      \<and> \<not> statusOk (statusCode rsp)
      \<and> getSerializationType ev (bodyApiVersion r) (bodyKind r) = Inr t \<longrightarrow>
      fst (requestPromise ev this ro None) =
        Inl (Thrown (HttpError rsp (deserialize ev (Value r) t) (statusCode rsp)
                       (httpErrorMessage ev))))
   \<and> (authenticate this ro = Inr q \<and> request ev (sent this) q = NetError e \<longrightarrow>
      fst (requestPromise ev this ro ty) = Inl (Thrown e))
   \<and> (specUriPath ev this s Create = (Inr p, s', this') \<longrightarrow>
      fst (create ev this (Some s) pretty dryRun fieldManager oh) =
        fst (requestPromise ev this'
               (createOptions ev this' p s' pretty dryRun fieldManager oh) None))
   \<and> (specUriPath ev this s Delete = (Inr p, s', this') \<longrightarrow>
      fst (delete ev this (Some s) pretty dryRun grace orphan policy deleteBody oh) =
        fst (requestPromise ev this'
               (deleteOptions ev this' p pretty dryRun grace orphan policy deleteBody oh)
               (Some ''V1Status'')))
   \<and> (specUriPath ev this s Patch = (Inr p, s', this') \<longrightarrow>
      fst (patch ev this (Some s) pretty dryRun fieldManager force oh) =
        fst (requestPromise ev this'
               (patchOptions ev this' p s' pretty dryRun fieldManager force oh) None))
   \<and> (specUriPath ev this s Replace = (Inr p, s', this') \<longrightarrow>
      fst (replace ev this (Some s) pretty dryRun fieldManager oh) =
        fst (requestPromise ev this'
               (replaceOptions ev this' p s' pretty dryRun fieldManager oh) None))
   \<and> (specUriPath ev this s Read = (Inr p, s', this') \<and> kind s \<noteq> None
       \<and> truthy (apiVersion s) \<longrightarrow>
      fst (read ev this (Some s) pretty exact exportt oh) =
        fst (requestPromise ev this' (readOptions ev this' p pretty exact exportt oh) None))
   \<and> (specUriPath ev this (listSpec av k ns) List = (Inr p, s', this') \<longrightarrow>
      fst (list ev this (Some av) (Some k) ns pretty exact exportt fieldSelector
             labelSelector limit continueToken oh) =
        fst (requestPromise ev this'
               (listOptions ev this' p pretty exact exportt fieldSelector labelSelector
                  limit continueToken oh) None))
   \<and> (cached ev this av k = Inr None
       \<and> fst (requestPromise ev this (metadataOptions this av) (Some ''V1APIResourceList''))
           = Inl (Thrown e) \<longrightarrow>
      fst (resource ev this (Some av) (Some k)) =
        Inl (Thrown (prefixMessage
               (''Failed to fetch resource metadata for '' @ av @ ''/'' @ k @ '': '') e)))
   \<and> prefixMessage m (Error msg) = Error (m @ msg)
   \<and> prefixMessage m (HttpError rsp b c msg) = HttpError rsp b c (m @ msg)
   \<and> prefixMessage m (NonError j) = NonError j
   \<and> (kind spec = Some k \<and> k \<noteq> []
       \<and> fst (resource ev this (Some (specApiVersion spec)) (Some k)) = Inl f \<longrightarrow>
      fst (specUriPath ev this spec action) = Inl f)"
proof -
  have pf: "fst (specUriPath ev this spec action) = Inl f"
    if a: "kind spec = Some k \<and> k \<noteq> []
       \<and> fst (resource ev this (Some (specApiVersion spec)) (Some k)) = Inl f"
  proof -
    from a obtain t where res:
      "resource ev this (Some (specApiVersion spec)) (Some k) = (Inl f, t)"
      by (cases "resource ev this (Some (specApiVersion spec)) (Some k)") simp
    from a have k: "kind spec = Some k" "k \<noteq> []" by simp_all
    show ?thesis by (simp only: specUriPath_fetch_failed [OF k res] fst_conv)
  qed
  have n1: "fst (requestPromise ev this ro (Some t)) =
        Inl (Thrown (HttpError rsp (deserialize ev b t) (statusCode rsp)
                       (httpErrorMessage ev)))"
    if "authenticate this ro = Inr q \<and> request ev (sent this) q = NetResponse rsp b
      \<and> \<not> statusOk (statusCode rsp)"
    using that requestPromise_non2xx [of this ro q ev rsp b "Some t" t] by simp
  have n2: "fst (requestPromise ev this ro None) =
        Inl (Thrown (HttpError rsp (deserialize ev (Value r) t) (statusCode rsp)
                       (httpErrorMessage ev)))"
    if "authenticate this ro = Inr q \<and> request ev (sent this) q = NetResponse rsp (Value r)
      \<and> \<not> statusOk (statusCode rsp)
      \<and> getSerializationType ev (bodyApiVersion r) (bodyKind r) = Inr t"
    using that requestPromise_non2xx [of this ro q ev rsp "Value r" None t]
    by (simp add: bodyType_def)
  show ?thesis
    apply (intro conjI impI)
                 apply (erule n1)
                apply (erule n2)
               apply (elim conjE, simp add: requestPromise_error)
              apply (simp add: create_request)
             apply (simp add: delete_request)
            apply (simp add: patch_request)
           apply (simp add: replace_request)
          apply (elim conjE, simp add: read_request)
         apply (simp add: list_request)
        apply (elim conjE, simp add: resource_fetch_failed)
       apply simp
      apply simp
     apply simp
    apply (erule pf)
    done
qed


theorem C6_failures_surfaced_witness:
  "fst (create exConflictEnv exCachedThis (Some exPod) None None None Map.empty)
     = Inl (Thrown (HttpError exConflict (exDeserialize exStatusBody ''V1Status'') (Some 409)
              ''HTTP request failed''))
   \<and> fst (delete exConflictEnv exCachedThis (Some exPod) None None None None None None
            Map.empty)
     = Inl (Thrown (HttpError exConflict (exDeserialize exStatusBody ''V1Status'') (Some 409)
              ''HTTP request failed''))
   \<and> fst (create exDownEnv exCachedThis (Some exPod) None None None Map.empty)
       = Inl (Thrown (Error ''ECONNREFUSED''))
   \<and> fst (resource exDownEnv exThis (Some ''v1'') (Some ''Pod''))
       = Inl (Thrown (Error ''Failed to fetch resource metadata for v1/Pod: ECONNREFUSED''))"
proof -
  let ?p = "''http://k8s/api/v1/namespaces/default/pods''"
  let ?pd = "''http://k8s/api/v1/namespaces/default/pods/foo''"
  let ?s' = "exPod\<lparr>apiVersion := Some ''v1'',
            metadata := Some \<lparr>name = Some ''Foo'', namespace = Some ''default'',
              metaRest = []\<rparr>\<rparr>"
  let ?r = "\<lparr>bodyApiVersion = Some (JStr ''v1''), bodyKind = Some (JStr ''Status''),
      resources = None, bodyRest = []\<rparr>"
  let ?q = "\<lambda>ev. createOptions ev exCachedThis ?p ?s' None None None Map.empty"
  let ?qd = "deleteOptions exConflictEnv exCachedThis ?pd None None None None None None
      Map.empty"
  have lc: "toLowerCase exConflictEnv = asciiLowerCase" "toLowerCase exDownEnv = asciiLowerCase"
    by (simp_all add: exConflictEnv_def exDownEnv_def exEnv_def)
  have pc: "specUriPath exConflictEnv exCachedThis exPod Create = (Inr ?p, ?s', exCachedThis)"
    by (simp add: exPod_path lc singleObject_def)
  have pdn: "specUriPath exDownEnv exCachedThis exPod Create = (Inr ?p, ?s', exCachedThis)"
    by (simp add: exPod_path lc singleObject_def)
  have pdel: "specUriPath exConflictEnv exCachedThis exPod Delete
      = (Inr ?pd, ?s', exCachedThis)"
    by (simp add: exPod_path lc singleObject_def)
  have u: "\<And>ev. uri (?q ev) \<noteq> ''http://k8s/api/v1''"
    by (simp add: createOptions_def Let_def)
  have ud: "uri ?qd \<noteq> ''http://k8s/api/v1''"
    by (simp add: deleteOptions_def Let_def)
  have n: "\<not> statusOk (statusCode exConflict)" by (simp add: statusOk_def exConflict_def)
  have sb: "exStatusBody = Value ?r" by (simp add: exStatusBody_def)
  have ty: "getSerializationType exConflictEnv (bodyApiVersion ?r) (bodyKind ?r)
      = Inr ''V1Status''"
    by (simp add: exStatusBody_type ex_upperCase)
  have a1: "authenticate exCachedThis (?q exConflictEnv) = Inr (?q exConflictEnv)
      \<and> request exConflictEnv (sent exCachedThis) (?q exConflictEnv)
          = NetResponse exConflict (Value ?r)
      \<and> \<not> statusOk (statusCode exConflict)
      \<and> getSerializationType exConflictEnv (bodyApiVersion ?r) (bodyKind ?r)
          = Inr ''V1Status''"
    using exConflict_request [OF u] n ty
    by (simp add: exCachedThis_authenticate sb)
  have a1d: "authenticate exCachedThis ?qd = Inr ?qd
      \<and> request exConflictEnv (sent exCachedThis) ?qd = NetResponse exConflict exStatusBody
      \<and> \<not> statusOk (statusCode exConflict)"
    by (simp add: exCachedThis_authenticate exConflict_request [OF ud] n)
  have a2: "authenticate exCachedThis (?q exDownEnv) = Inr (?q exDownEnv)
      \<and> request exDownEnv (sent exCachedThis) (?q exDownEnv) = NetError (Error ''ECONNREFUSED'')"
    by (simp add: exCachedThis_authenticate exDown_request)
  have d: "deserialize exConflictEnv = exDeserialize" "httpErrorMessage exConflictEnv
      = ''HTTP request failed''" "statusCode exConflict = Some 409"
    by (simp_all add: exConflictEnv_def exEnv_def exConflict_def)
  have w1: "fst (create exConflictEnv exCachedThis (Some exPod) None None None Map.empty)
     = Inl (Thrown (HttpError exConflict (exDeserialize exStatusBody ''V1Status'') (Some 409)
              ''HTTP request failed''))"
    using C6_failures_surfaced [where ev = exConflictEnv and this = exCachedThis
        and this' = exCachedThis and s = exPod and p = ?p and s' = ?s' and pretty = None
        and dryRun = None and fieldManager = None and oh = Map.empty,
        THEN conjunct2, THEN conjunct2, THEN conjunct2, THEN conjunct1, THEN mp, OF pc]
      C6_failures_surfaced [where ev = exConflictEnv and this = exCachedThis
        and ro = "?q exConflictEnv" and q = "?q exConflictEnv" and rsp = exConflict
        and r = ?r and t = "''V1Status''", THEN conjunct2, THEN conjunct1, THEN mp, OF a1]
    by (simp add: d sb)
  have w1d: "fst (delete exConflictEnv exCachedThis (Some exPod) None None None None None None
            Map.empty)
     = Inl (Thrown (HttpError exConflict (exDeserialize exStatusBody ''V1Status'') (Some 409)
              ''HTTP request failed''))"
    using C6_failures_surfaced [where ev = exConflictEnv and this = exCachedThis
        and this' = exCachedThis and s = exPod and p = ?pd and s' = ?s' and pretty = None
        and dryRun = None and grace = None and orphan = None and policy = None
        and deleteBody = None and oh = Map.empty,
        THEN conjunct2, THEN conjunct2, THEN conjunct2, THEN conjunct2, THEN conjunct1,
        THEN mp, OF pdel]
      C6_failures_surfaced [where ev = exConflictEnv and this = exCachedThis
        and ro = ?qd and q = ?qd and rsp = exConflict and b = exStatusBody
        and t = "''V1Status''", THEN conjunct1, THEN mp, OF a1d]
    by (simp add: d)
  have w2: "fst (create exDownEnv exCachedThis (Some exPod) None None None Map.empty)
       = Inl (Thrown (Error ''ECONNREFUSED''))"
    using C6_failures_surfaced [where ev = exDownEnv and this = exCachedThis
        and this' = exCachedThis and s = exPod and p = ?p and s' = ?s' and pretty = None
        and dryRun = None and fieldManager = None and oh = Map.empty,
        THEN conjunct2, THEN conjunct2, THEN conjunct2, THEN conjunct1, THEN mp, OF pdn]
      C6_failures_surfaced [where ev = exDownEnv and this = exCachedThis
        and ro = "?q exDownEnv" and q = "?q exDownEnv" and e = "Error ''ECONNREFUSED''"
        and ty = None, THEN conjunct2, THEN conjunct2, THEN conjunct1, THEN mp, OF a2]
    by simp
  have c: "cached exDownEnv exThis ''v1'' ''Pod'' = Inr None" by (rule exThis_cached)
  have a3: "authenticate exThis (metadataOptions exThis ''v1'')
        = Inr (metadataOptions exThis ''v1'')
      \<and> request exDownEnv (sent exThis) (metadataOptions exThis ''v1'')
          = NetError (Error ''ECONNREFUSED'')"
    by (simp add: exThis_authenticate exDown_request)
  have f: "fst (requestPromise exDownEnv exThis (metadataOptions exThis ''v1'')
                  (Some ''V1APIResourceList'')) = Inl (Thrown (Error ''ECONNREFUSED''))"
    by (rule C6_failures_surfaced [where ev = exDownEnv and this = exThis
        and ro = "metadataOptions exThis ''v1''" and q = "metadataOptions exThis ''v1''"
        and e = "Error ''ECONNREFUSED''" and ty = "Some ''V1APIResourceList''",
        THEN conjunct2, THEN conjunct2, THEN conjunct1, THEN mp, OF a3])
  have w3: "fst (resource exDownEnv exThis (Some ''v1'') (Some ''Pod''))
       = Inl (Thrown (Error ''Failed to fetch resource metadata for v1/Pod: ECONNREFUSED''))"
    using C6_failures_surfaced [where ev = exDownEnv and this = exThis and av = "''v1''"
        and k = "''Pod''" and e = "Error ''ECONNREFUSED''",
        THEN conjunct2, THEN conjunct2, THEN conjunct2, THEN conjunct2, THEN conjunct2,
        THEN conjunct2, THEN conjunct2, THEN conjunct2, THEN conjunct2, THEN conjunct1,
        THEN mp, OF conjI [OF c f]]
    by simp
  show ?thesis
    by (intro conjI) (fact w1 w1d w2 w3)+
qed

subsection \<open>The force flag of patch\<close>

lemma setParam_other: "k \<noteq> nm \<Longrightarrow> setParam ev nm ty v q k = q k"
  by (cases v) (simp_all add: setParam_def)

lemma setParam_same:
  "setParam ev nm ty v q nm = (case v of None \<Rightarrow> q nm | Some x \<Rightarrow> Some (serialize ev x ty))"
  by (cases v) (simp_all add: setParam_def)

lemma patchOptions_force:
  "qs (patchOptions ev this p s pretty dryRun fieldManager force oh) ''force''
     = map_option (\<lambda>f. serialize ev (ABoolean f) ''boolean'') force"
  by (cases force) (simp_all add: patchOptions_def Let_def setParam_same setParam_other)

lemma patch_sent:
  assumes "specUriPath ev this s Patch = (Inr p, s', this')"
    and "authenticate this' (patchOptions ev this' p s' pretty dryRun fieldManager force oh)
           = Inr q"
  shows "sent (snd (snd (patch ev this (Some s) pretty dryRun fieldManager force oh)))
     = sent this' @ [q]"
  unfolding patch_request [OF assms(1)]
  using requestPromise_sent [OF assms(2)] by simp

lemma exPod_patch_sent:
  "sent (snd (snd (patch exEnv exCachedThis (Some exPod) None None None (Some True) oh)))
     = [patchOptions exEnv exCachedThis ''http://k8s/api/v1/namespaces/default/pods/foo''
          (exPod\<lparr>apiVersion := Some ''v1'',
             metadata := Some \<lparr>name = Some ''Foo'', namespace = Some ''default'',
               metaRest = []\<rparr>\<rparr>) None None None (Some True) oh]"
proof -
  have p: "specUriPath exEnv exCachedThis exPod Patch
      = (Inr ''http://k8s/api/v1/namespaces/default/pods/foo'',
         exPod\<lparr>apiVersion := Some ''v1'',
             metadata := Some \<lparr>name = Some ''Foo'', namespace = Some ''default'',
               metaRest = []\<rparr>\<rparr>, exCachedThis)"
    by (simp add: exPod_path ex_lowerCase singleObject_def)
  have s: "sent exCachedThis = []" by (simp add: exCachedThis_def exThis_def)
  show ?thesis
    using patch_sent [OF p exCachedThis_authenticate] by (simp add: s)
qed

text \<open>
  C8, as stated, fails. A patch with \<^verbatim>\<open>force\<close> set to true and no header of the caller's is
  sent with the content type \<^verbatim>\<open>application/strategic-merge-patch+json\<close> and with the query
  parameter \<^verbatim>\<open>force\<close>; so is one whose caller chose \<^verbatim>\<open>application/json-patch+json\<close>.
\<close>

theorem C8_force_counterexample:
  "headers (last (sent (snd (snd (patch exEnv exCachedThis (Some exPod) None None None
                                    (Some True) Map.empty))))) ''content-type''
     = Some StrategicMergePatch
   \<and> qs (last (sent (snd (snd (patch exEnv exCachedThis (Some exPod) None None None
                                    (Some True) Map.empty))))) ''force''
       = Some (ABoolean True)
   \<and> headers (last (sent (snd (snd (patch exEnv exCachedThis (Some exPod) None None None
                                    (Some True) [''content-type'' \<mapsto> JsonPatch])))))
         ''content-type''
       = Some JsonPatch
   \<and> qs (last (sent (snd (snd (patch exEnv exCachedThis (Some exPod) None None None
                                    (Some True) [''content-type'' \<mapsto> JsonPatch])))))
         ''force''
       = Some (ABoolean True)"
  unfolding exPod_patch_sent
  by (simp add: patchOptions_force)
    (simp add: patchOptions_def generateHeaders_def Let_def exEnv_def)


text \<open>
  C8, amended. Whatever the headers, the request of a patch carries the query parameter
  \<^verbatim>\<open>force\<close> exactly when the caller supplies the flag, its value being the flag serialized as
  a boolean; and that request is what patch hands to the transport (after authentication
  and interceptors have passed it on as \<open>q\<close>).
\<close>

theorem C8_force_passed_through:
  "qs (patchOptions ev this' p s' pretty dryRun fieldManager force oh) ''force''
     = map_option (\<lambda>f. serialize ev (ABoolean f) ''boolean'') force
   \<and> (specUriPath ev this s Patch = (Inr p, s', this')
       \<and> authenticate this' (patchOptions ev this' p s' pretty dryRun fieldManager force oh)
           = Inr q \<longrightarrow>
      sent (snd (snd (patch ev this (Some s) pretty dryRun fieldManager force oh)))
        = sent this' @ [q])"
proof (intro conjI impI)
  show "qs (patchOptions ev this' p s' pretty dryRun fieldManager force oh) ''force''
     = map_option (\<lambda>f. serialize ev (ABoolean f) ''boolean'') force"
    by (rule patchOptions_force)
next
  assume "specUriPath ev this s Patch = (Inr p, s', this')
       \<and> authenticate this' (patchOptions ev this' p s' pretty dryRun fieldManager force oh)
           = Inr q"
  then show "sent (snd (snd (patch ev this (Some s) pretty dryRun fieldManager force oh)))
        = sent this' @ [q]"
    using patch_sent by blast
qed

theorem C8_force_passed_through_witness:
  "specUriPath exEnv exCachedThis exPod Patch
     = (Inr ''http://k8s/api/v1/namespaces/default/pods/foo'',
        exPod\<lparr>apiVersion := Some ''v1'',
           metadata := Some \<lparr>name = Some ''Foo'', namespace = Some ''default'',
             metaRest = []\<rparr>\<rparr>, exCachedThis)
   \<and> sent (snd (snd (patch exEnv exCachedThis (Some exPod) None None None (Some False)
                        [''content-type'' \<mapsto> MergePatch])))
       = [patchOptions exEnv exCachedThis ''http://k8s/api/v1/namespaces/default/pods/foo''
            (exPod\<lparr>apiVersion := Some ''v1'',
               metadata := Some \<lparr>name = Some ''Foo'', namespace = Some ''default'',
                 metaRest = []\<rparr>\<rparr>) None None None (Some False)
            [''content-type'' \<mapsto> MergePatch]]
   \<and> qs (patchOptions exEnv exCachedThis ''http://k8s/api/v1/namespaces/default/pods/foo''
            (exPod\<lparr>apiVersion := Some ''v1'',
               metadata := Some \<lparr>name = Some ''Foo'', namespace = Some ''default'',
                 metaRest = []\<rparr>\<rparr>) None None None (Some False)
            [''content-type'' \<mapsto> MergePatch]) ''force''
       = Some (ABoolean False)"
proof -
  let ?p = "''http://k8s/api/v1/namespaces/default/pods/foo''"
  let ?s' = "exPod\<lparr>apiVersion := Some ''v1'',
           metadata := Some \<lparr>name = Some ''Foo'', namespace = Some ''default'',
             metaRest = []\<rparr>\<rparr>"
  let ?q = "patchOptions exEnv exCachedThis ?p ?s' None None None (Some False)
            [''content-type'' \<mapsto> MergePatch]"
  note t = C8_force_passed_through [where ev = exEnv and this = exCachedThis
      and this' = exCachedThis and s = exPod and p = ?p and s' = ?s' and pretty = None
      and dryRun = None and fieldManager = None and force = "Some False"
      and oh = "[''content-type'' \<mapsto> MergePatch]" and q = ?q]
  have p: "specUriPath exEnv exCachedThis exPod Patch = (Inr ?p, ?s', exCachedThis)"
    by (simp add: exPod_path ex_lowerCase singleObject_def)
  have a: "authenticate exCachedThis ?q = Inr ?q" by (rule exCachedThis_authenticate)
  have s: "sent exCachedThis = []" by (simp add: exCachedThis_def exThis_def)
  have w1: "sent (snd (snd (patch exEnv exCachedThis (Some exPod) None None None (Some False)
                        [''content-type'' \<mapsto> MergePatch]))) = [?q]"
    using t [THEN conjunct2, THEN mp, OF conjI [OF p a]] by (simp only: s append_Nil)
  have w2: "qs ?q ''force'' = Some (ABoolean False)"
    using t [THEN conjunct1] by (simp add: exEnv_def)
  show ?thesis
    by (intro conjI) (fact p w1 w2)+
qed

subsection \<open>Watch events\<close>

lemma watch_Inr:
  assumes "watch ev this av k ns options = (Inr calls, this')"
  shows "\<exists>w path raw ty. watcher this = Some w \<and> w path options = Inr raw
     \<and> getSerializationType ev (Some (JStr av)) (Some (JStr k)) = Inr ty
     \<and> calls = map (cb ev ty) raw"
  using assms
  by (auto simp: watch_def Let_def split: option.splits prod.splits sum.splits)

lemma cb_object:
  "cb ev ty (phase, apiObj, watchObj) =
     (phase, deserialize ev apiObj ty,
      map_option (\<lambda>x. x\<lparr>wobject := deserialize ev apiObj ty\<rparr>) watchObj)"
  by (simp add: cb_def Let_def)

lemma exPods_watch:
  "watch exEnv exCachedThis ''v1'' ''Pod'' None options =
     (Inr [(ERROR, exDeserialize exStatusBody ''V1Pod'',
            Some \<lparr>wtype = ERROR, wobject = exDeserialize exStatusBody ''V1Pod''\<rparr>)],
      exCachedThis)"
proof -
  let ?spec = "listSpec ''v1'' ''Pod'' None"
  have k: "kind ?spec = Some ''Pod''" "''Pod'' \<noteq> []" by (simp_all add: listSpec_def)
  have av: "specApiVersion ?spec = ''v1''" by (simp add: specApiVersion_def listSpec_def)
  have md: "specMeta ?spec = \<lparr>name = None, namespace = None, metaRest = []\<rparr>"
    by (simp add: specMeta_def listSpec_def)
  have bp: "basePath exCachedThis = ''http://k8s''"
    by (simp add: exCachedThis_def exThis_def)
  have w: "watcher exCachedThis = Some exWatcher" by (simp add: exCachedThis_def exThis_def)
  have res: "resource exEnv exCachedThis (Some (specApiVersion ?spec)) (Some ''Pod'')
     = (Inr (Some \<lparr>resourceKind = ''Pod'', resourceName = ''pods'', namespaced = True\<rparr>),
        exCachedThis)"
    by (simp only: av exCached_pod)
  have p: "specUriPath exEnv exCachedThis ?spec List
      = (Inr ''http://k8s/api/v1/pods'',
         ?spec\<lparr>apiVersion := Some ''v1'',
           metadata := Some \<lparr>name = None, namespace = None, metaRest = []\<rparr>\<rparr>, exCachedThis)"
    unfolding specUriPath_resolved [OF k res]
    by (simp add: pathSegments_def filledNamespace_def rootSegment_def av md bp truthy_def
        string_defs singleObject_def ex_lowerCase)
  have ty: "getSerializationType exEnv (Some (JStr ''v1'')) (Some (JStr ''Pod'')) = Inr ''V1Pod''"
    by (simp add: ex_v1_type ex_upperCase)
  have u: "\<And>x. urlPathname exEnv x = Inr (drop 10 x)" by (simp add: exEnv_def)
  have d: "deserialize exEnv = exDeserialize" by (simp add: exEnv_def)
  show ?thesis
    by (simp add: watch_def w p u ty cb_object exWatcher_def d Let_def)
qed

text \<open>
  C9, as stated, fails. On a watch of pods the watcher hands over an \<^verbatim>\<open>ERROR\<close> event whose
  object is a status (\<^verbatim>\<open>apiVersion\<close> \<^verbatim>\<open>v1\<close>, \<^verbatim>\<open>kind\<close> \<^verbatim>\<open>Status\<close>), whose own type name is
  \<^verbatim>\<open>V1Status\<close>; the object the caller's callback receives was decoded with the type name
  \<^verbatim>\<open>V1Pod\<close>.
\<close>

theorem C9_watch_counterexample:
  "exWatcher ''/api/v1/pods'' \<lparr>allowWatchBookmarks = None, resourceVersion = None\<rparr>
     = Inr [(ERROR, exStatusBody, Some \<lparr>wtype = ERROR, wobject = exStatusBody\<rparr>)]
   \<and> fst (watch exEnv exCachedThis ''v1'' ''Pod'' None
             \<lparr>allowWatchBookmarks = None, resourceVersion = None\<rparr>)
       = Inr [(ERROR, exDeserialize exStatusBody ''V1Pod'',
               Some \<lparr>wtype = ERROR, wobject = exDeserialize exStatusBody ''V1Pod''\<rparr>)]
   \<and> bodyType exEnv exStatusBody = Inr ''V1Status''
   \<and> exDeserialize exStatusBody ''V1Pod'' \<noteq> deserialize exEnv exStatusBody ''V1Status''"
proof -
  have n: "exDeserialize exStatusBody ''V1Pod'' \<noteq> deserialize exEnv exStatusBody ''V1Status''"
    by (simp add: exEnv_def exDeserialize_def exStatusBody_def)
  have t: "bodyType exEnv exStatusBody = Inr ''V1Status''"
    by (simp add: bodyType_def exStatusBody_def exStatusBody_type ex_upperCase)
  show ?thesis
    using n t by (simp add: exPods_watch exWatcher_def)
qed

text \<open>
  C9, amended. Every call the caller's callback receives comes from one call of the watcher,
  in the same order, with the same event type; its object is the watcher's object decoded
  with the type name derived from the API version and the kind of the watched resource, the
  arguments of \<^verbatim>\<open>watch\<close>, and the event record, when there is one, carries that same decoded
  object.
\<close>

theorem C9_watch_decoding:
  assumes "watch ev this av k ns options = (Inr calls, this')"
  shows "\<exists>w path raw ty. watcher this = Some w \<and> w path options = Inr raw
     \<and> getSerializationType ev (Some (JStr av)) (Some (JStr k)) = Inr ty
     \<and> length calls = length raw
     \<and> (\<forall>i. i < length raw \<longrightarrow>
           (case raw ! i of (phase, apiObj, watchObj) \<Rightarrow>
              calls ! i =
                (phase, deserialize ev apiObj ty,
                 map_option (\<lambda>x. x\<lparr>wobject := deserialize ev apiObj ty\<rparr>) watchObj)))"
proof -
  from watch_Inr [OF assms] obtain w path raw ty where
    w: "watcher this = Some w" "w path options = Inr raw"
    and t: "getSerializationType ev (Some (JStr av)) (Some (JStr k)) = Inr ty"
    and c: "calls = map (cb ev ty) raw"
    by blast
  have "\<forall>i. i < length raw \<longrightarrow>
           (case raw ! i of (phase, apiObj, watchObj) \<Rightarrow>
              calls ! i =
                (phase, deserialize ev apiObj ty,
                 map_option (\<lambda>x. x\<lparr>wobject := deserialize ev apiObj ty\<rparr>) watchObj))"
    unfolding c by (auto simp: cb_object split: prod.splits)
  moreover have "length calls = length raw" unfolding c by simp
  ultimately show ?thesis using w t by blast
qed

theorem C9_watch_decoding_witness:
  "watch exEnv exCachedThis ''v1'' ''Pod'' None
      \<lparr>allowWatchBookmarks = None, resourceVersion = None\<rparr>
     = (Inr [(ERROR, exDeserialize exStatusBody ''V1Pod'',
              Some \<lparr>wtype = ERROR, wobject = exDeserialize exStatusBody ''V1Pod''\<rparr>)],
        exCachedThis)
   \<and> watcher exCachedThis = Some exWatcher
   \<and> getSerializationType exEnv (Some (JStr ''v1'')) (Some (JStr ''Pod'')) = Inr ''V1Pod''
   \<and> (ERROR, exDeserialize exStatusBody ''V1Pod'',
       Some \<lparr>wtype = ERROR, wobject = exDeserialize exStatusBody ''V1Pod''\<rparr>)
      = (ERROR, deserialize exEnv exStatusBody ''V1Pod'',
         Some \<lparr>wtype = ERROR, wobject = deserialize exEnv exStatusBody ''V1Pod''\<rparr>)"
proof -
  let ?opts = "\<lparr>allowWatchBookmarks = None, resourceVersion = None\<rparr>"
  let ?call = "(ERROR, exDeserialize exStatusBody ''V1Pod'',
       Some \<lparr>wtype = ERROR, wobject = exDeserialize exStatusBody ''V1Pod''\<rparr>)"
  have h: "watch exEnv exCachedThis ''v1'' ''Pod'' None ?opts = (Inr [?call], exCachedThis)"
    by (rule exPods_watch)
  have w0: "watcher exCachedThis = Some exWatcher"
    by (simp add: exCachedThis_def exThis_def)
  have t0: "getSerializationType exEnv (Some (JStr ''v1'')) (Some (JStr ''Pod'')) = Inr ''V1Pod''"
    by (simp add: ex_v1_type ex_upperCase)
  from C9_watch_decoding [OF h] obtain w path raw ty where
    w: "watcher exCachedThis = Some w" and r: "w path ?opts = Inr raw"
    and t: "getSerializationType exEnv (Some (JStr ''v1'')) (Some (JStr ''Pod'')) = Inr ty"
    and a: "\<forall>i. i < length raw \<longrightarrow>
           (case raw ! i of (phase, apiObj, watchObj) \<Rightarrow>
              [?call] ! i =
                (phase, deserialize exEnv apiObj ty,
                 map_option (\<lambda>x. x\<lparr>wobject := deserialize exEnv apiObj ty\<rparr>) watchObj))"
    by blast
  from w w0 have "w = exWatcher" by simp
  with r have raw: "raw = [(ERROR, exStatusBody, Some \<lparr>wtype = ERROR, wobject = exStatusBody\<rparr>)]"
    by (simp add: exWatcher_def)
  from t t0 have ty: "ty = ''V1Pod''" by simp
  from a [rule_format, of 0] have "?call
      = (ERROR, deserialize exEnv exStatusBody ''V1Pod'',
         Some \<lparr>wtype = ERROR, wobject = deserialize exEnv exStatusBody ''V1Pod''\<rparr>)"
    unfolding raw ty by simp
  with h w0 t0 show ?thesis by (intro conjI)
qed

end
